theory Spec2Isabelle
  imports Complex_Main "HOL-Library.AList"
begin

section \<open>Python values\<close>

text \<open>
  The values that flow between the host scene, the widgets and the data bundles of
  \<^verbatim>\<open>attrWidgets.py\<close>: \<^verbatim>\<open>None\<close>, booleans, integers, floats, strings and lists.
  Floats are idealised as exact rationals (no rounding, no NaN).
\<close>

datatype pyval = PNone | PBool bool | PInt int | PFloat rat | PStr string | PList "pyval list"

datatype error = TypeError | ValueError | KeyError | AttributeError

datatype 'a outcome = Return 'a | Raise error

text \<open>Truth value testing (\<^verbatim>\<open>if x:\<close>, \<^verbatim>\<open>not x\<close>).\<close>

fun py_truthy :: "pyval \<Rightarrow> bool" where
  "py_truthy PNone = False"
| "py_truthy (PBool b) = b"
| "py_truthy (PInt i) = (i \<noteq> 0)"
| "py_truthy (PFloat r) = (r \<noteq> 0)"
| "py_truthy (PStr s) = (s \<noteq> [])"
| "py_truthy (PList xs) = (xs \<noteq> [])"

text \<open>The numeric tower: \<^verbatim>\<open>bool\<close> is a subclass of \<^verbatim>\<open>int\<close>, and numbers compare by value.\<close>

fun py_num :: "pyval \<Rightarrow> rat option" where
  "py_num (PBool b) = Some (if b then 1 else 0)"
| "py_num (PInt i) = Some (of_int i)"
| "py_num (PFloat r) = Some r"
| "py_num PNone = None"
| "py_num (PStr s) = None"
| "py_num (PList xs) = None"

text \<open>Python's \<^verbatim>\<open>==\<close> on these values.\<close>

fun py_eq :: "pyval \<Rightarrow> pyval \<Rightarrow> bool"
  and py_eq_list :: "pyval list \<Rightarrow> pyval list \<Rightarrow> bool" where
  "py_eq (PList xs) (PList ys) = py_eq_list xs ys"
| "py_eq (PList xs) PNone = False"
| "py_eq (PList xs) (PBool b) = False"
| "py_eq (PList xs) (PInt i) = False"
| "py_eq (PList xs) (PFloat r) = False"
| "py_eq (PList xs) (PStr s) = False"
| "py_eq (PStr s) y = (y = PStr s)"
| "py_eq PNone y = (y = PNone)"
| "py_eq (PBool b) y = (case py_num y of Some r \<Rightarrow> r = (if b then 1 else 0) | None \<Rightarrow> False)"
| "py_eq (PInt i) y = (case py_num y of Some r \<Rightarrow> r = of_int i | None \<Rightarrow> False)"
| "py_eq (PFloat q) y = (case py_num y of Some r \<Rightarrow> r = q | None \<Rightarrow> False)"
| "py_eq_list [] [] = True"
| "py_eq_list (x # xs) (y # ys) = (py_eq x y \<and> py_eq_list xs ys)"
| "py_eq_list [] (y # ys) = False"
| "py_eq_list (x # xs) [] = False"

text \<open>\<^verbatim>\<open>x * float(k)\<close>, \<^verbatim>\<open>x / float(k)\<close> and \<^verbatim>\<open>x + 1\<close>: a \<^verbatim>\<open>TypeError\<close> on a non-number.\<close>

definition py_mul_float :: "pyval \<Rightarrow> int \<Rightarrow> pyval outcome" where
  "py_mul_float x k = (case py_num x of Some r \<Rightarrow> Return (PFloat (r * of_int k)) | None \<Rightarrow> Raise TypeError)"

definition py_div_float :: "pyval \<Rightarrow> int \<Rightarrow> pyval outcome" where
  "py_div_float x k = (case py_num x of Some r \<Rightarrow> Return (PFloat (r / of_int k)) | None \<Rightarrow> Raise TypeError)"

fun py_add_one :: "pyval \<Rightarrow> pyval outcome" where
  "py_add_one (PBool b) = Return (PInt ((if b then 1 else 0) + 1))"
| "py_add_one (PInt i) = Return (PInt (i + 1))"
| "py_add_one (PFloat r) = Return (PFloat (r + 1))"
| "py_add_one PNone = Raise TypeError"
| "py_add_one (PStr s) = Raise TypeError"
| "py_add_one (PList xs) = Raise TypeError"

text \<open>\<^verbatim>\<open>int(x)\<close> on the values an integer plug yields; a string is refused.\<close>

fun py_int :: "pyval \<Rightarrow> pyval outcome" where
  "py_int (PBool b) = Return (PInt (if b then 1 else 0))"
| "py_int (PInt i) = Return (PInt i)"
| "py_int (PFloat r) = Return (PInt (if r < 0 then - \<lfloor>- r\<rfloor> else \<lfloor>r\<rfloor>))"
| "py_int PNone = Raise TypeError"
| "py_int (PStr s) = Raise ValueError"
| "py_int (PList xs) = Raise TypeError"

text \<open>Dictionaries with string keys, as association lists; \<^verbatim>\<open>d.get(k, default)\<close>.\<close>

type_synonym pydict = "(string \<times> pyval) list"

definition dict_get :: "pydict \<Rightarrow> string \<Rightarrow> pyval \<Rightarrow> pyval" where
  "dict_get d k dflt = (case map_of d k of Some v \<Rightarrow> v | None \<Rightarrow> dflt)"

text \<open>\<^verbatim>\<open>s.split(c)\<close> and \<^verbatim>\<open>s.startswith('_')\<close>.\<close>

fun split_on :: "char \<Rightarrow> string \<Rightarrow> string list" where
  "split_on c [] = [[]]"
| "split_on c (x # xs) =
     (if x = c then [] # split_on c xs
      else (case split_on c xs of y # ys \<Rightarrow> (x # y) # ys | [] \<Rightarrow> [[x]]))"

fun startswith_underscore :: "string \<Rightarrow> bool" where
  "startswith_underscore [] = False"
| "startswith_underscore (c # cs) = (c = CHR ''_'')"

section \<open>Module constants\<close>

definition K_FLOAT_WIDGET_STEP_INCREMENT :: rat where
  "K_FLOAT_WIDGET_STEP_INCREMENT = 1 / 100"

definition K_FLOAT_WIDGET_FACTOR :: int where
  "K_FLOAT_WIDGET_FACTOR = 100"

definition K_INTEGER_ATTR_DEFAULTS :: pydict where
  "K_INTEGER_ATTR_DEFAULTS =
     [(''value'', PInt 0), (''minimum'', PInt 0), (''maximum'', PInt 10000),
      (''softRange'', PList [PInt 0, PInt 10000])]"

definition K_FLOAT_ATTR_DEFAULTS :: pydict where
  "K_FLOAT_ATTR_DEFAULTS =
     [(''value'', PFloat 0), (''minimum'', PFloat 0), (''maximum'', PFloat 10000),
      (''softRange'', PList [PFloat 0, PFloat 10000])]"

definition K_OVR_PLUG_OVERRIDE_DATA_KEYS :: string where
  "K_OVR_PLUG_OVERRIDE_DATA_KEYS = ''overridePlug''"

definition ALWAYS_SKIP_PROPERTIES :: "string list" where
  "ALWAYS_SKIP_PROPERTIES =
     [''valueChanged'', ''staticMetaObject'', ''VALID_ATTR_TYPES'', ''PUSH_SKIP_PROPERTIES'',
      ''GARBAGE_TEST'']"

definition PUSH_SKIP_PROPERTIES :: "string list" where
  "PUSH_SKIP_PROPERTIES = [''node'', ''attribute'', ''attributeType'', ''isConnected'', ''plugString'']"

definition GARBAGE_TEST :: string where
  "GARBAGE_TEST = ''GAdbsdbrhad''"

section \<open>The host scene\<close>

text \<open>
  The host application (\<^verbatim>\<open>maya.cmds\<close>, \<^verbatim>\<open>OpenMaya\<close>) is outside the module. It is
  modelled at the interface the module uses: a scene of plugs, each with a type, a value
  and optional numeric bounds and enumeration labels; a registry of node callbacks; and
  the queue behind \<^verbatim>\<open>cmds.evalDeferred\<close>, of which only the number of scheduled calls is
  kept. The world also logs what leaves the widget: every \<^verbatim>\<open>getAttr\<close> and
  \<^verbatim>\<open>setAttr\<close> call and every emission of the \<^verbatim>\<open>valueChanged\<close> signal.
\<close>

record attr =
  atype :: string
  aval :: pyval
  aminimum :: "pyval option"
  amaximum :: "pyval option"
  asoftRange :: "pyval option"
  aenum :: string

record world =
  plugs :: "string \<Rightarrow> attr option"
  callbacks :: "nat list"
  nextCallbackId :: nat
  evalDeferredCalls :: nat
  getAttrCalls :: nat
  setAttrLog :: "(pyval \<times> pyval \<times> string option) list"
  valueChangedEmits :: nat

text \<open>\<^verbatim>\<open>cmds.objExists(plug)\<close>.\<close>

fun objExists :: "pyval \<Rightarrow> world \<Rightarrow> bool" where
  "objExists (PStr s) w = (case plugs w s of Some a \<Rightarrow> True | None \<Rightarrow> False)"
| "objExists PNone w = False"
| "objExists (PBool b) w = False"
| "objExists (PInt i) w = False"
| "objExists (PFloat r) w = False"
| "objExists (PList xs) w = False"

text \<open>\<^verbatim>\<open>cmds.getAttr(plug)\<close>: the plug's value; it raises when no such plug exists.\<close>

definition getAttr :: "pyval \<Rightarrow> world \<Rightarrow> pyval outcome \<times> world" where
  "getAttr p w =
     (let w' = w\<lparr>getAttrCalls := getAttrCalls w + 1\<rparr> in
      case p of
        PStr s \<Rightarrow> (case plugs w s of Some a \<Rightarrow> (Return (aval a), w') | None \<Rightarrow> (Raise ValueError, w'))
      | _ \<Rightarrow> (Raise TypeError, w'))"

text \<open>\<^verbatim>\<open>cmds.getAttr(plug, type=True)\<close>: the plug's type name.\<close>

definition getAttrType :: "string \<Rightarrow> world \<Rightarrow> string outcome" where
  "getAttrType s w = (case plugs w s of Some a \<Rightarrow> Return (atype a) | None \<Rightarrow> Raise ValueError)"

text \<open>
  \<^verbatim>\<open>cmds.setAttr(plug, value[, type=t])\<close>: stores the value; it raises when no such plug
  exists. Every call is logged with its arguments.
\<close>

definition setAttr :: "pyval \<Rightarrow> pyval \<Rightarrow> string option \<Rightarrow> world \<Rightarrow> unit outcome \<times> world" where
  "setAttr p v ty w =
     (let w' = w\<lparr>setAttrLog := setAttrLog w @ [(p, v, ty)]\<rparr> in
      case p of
        PStr s \<Rightarrow>
          (case plugs w s of
             Some a \<Rightarrow> (Return (), w'\<lparr>plugs := (plugs w)(s \<mapsto> a\<lparr>aval := v\<rparr>)\<rparr>)
           | None \<Rightarrow> (Raise ValueError, w'))
      | _ \<Rightarrow> (Raise TypeError, w'))"

text \<open>
  \<^verbatim>\<open>om.MNodeMessage.addNodeDirtyPlugCallback\<close> hands out a fresh callback id and
  registers it; \<^verbatim>\<open>om.MMessage.removeCallback\<close> removes one.
\<close>

definition addNodeDirtyPlugCallback :: "world \<Rightarrow> nat \<times> world" where
  "addNodeDirtyPlugCallback w =
     (nextCallbackId w,
      w\<lparr>callbacks := callbacks w @ [nextCallbackId w], nextCallbackId := nextCallbackId w + 1\<rparr>)"

definition removeCallback :: "nat \<Rightarrow> world \<Rightarrow> world" where
  "removeCallback i w = w\<lparr>callbacks := removeAll i (callbacks w)\<rparr>"

definition evalDeferred :: "world \<Rightarrow> world" where
  "evalDeferred w = w\<lparr>evalDeferredCalls := evalDeferredCalls w + 1\<rparr>"

section \<open>Bindings\<close>

datatype widget_class =
    BaseAttributeWidget
  | StringAttributeWidget
  | EnumAttributeWidget
  | FloatNumericSimpleAttributeWidget
  | FloatNumericAttributeWidget
  | IntegerNumericSimpleAttributeWidget
  | IntegerNumericAttributeWidget
  | BoolAttributeWidget

text \<open>
  The instance attributes of a widget (\<^verbatim>\<open>_node\<close>, \<^verbatim>\<open>_value\<close>, ...; the leading
  underscore is dropped; \<^verbatim>\<open>_value\<close> is \<open>u_value\<close>), followed by what its Qt controls
  show. A control is modelled at its interface: it shows the last value it was given;
  ranges, steps, decimals, labels and layout are left out.
\<close>

record binding =
  cls :: widget_class
  node :: string
  attribute :: string
  plugString :: string
  displayName :: pyval
  attributeType :: string
  isConnected :: bool
  attributeDefaults :: pydict
  u_value :: pyval
  customIncrement :: pyval
  deferredUpdateRequest :: "bool list"
  nodeCallbacks :: "nat list"
  sceneAttributeData :: pydict
  enumValues :: pyval
  lineEdit :: pyval
  comboBoxItems :: "pyval list"
  comboBoxIndex :: pyval
  spinBox :: pyval
  slider :: pyval
  checkBox :: bool

fun VALID_ATTR_TYPES :: "widget_class \<Rightarrow> string list" where
  "VALID_ATTR_TYPES BaseAttributeWidget = []"
| "VALID_ATTR_TYPES StringAttributeWidget = [''string'']"
| "VALID_ATTR_TYPES EnumAttributeWidget = [''enum'']"
| "VALID_ATTR_TYPES FloatNumericSimpleAttributeWidget =
     [''doubleLinear'', ''double'', ''float'', ''time'', ''doubleAngle'']"
| "VALID_ATTR_TYPES FloatNumericAttributeWidget =
     [''doubleLinear'', ''double'', ''float'', ''time'', ''doubleAngle'']"
| "VALID_ATTR_TYPES IntegerNumericSimpleAttributeWidget = [''long'', ''short'', ''byte'']"
| "VALID_ATTR_TYPES IntegerNumericAttributeWidget = [''long'', ''short'', ''byte'']"
| "VALID_ATTR_TYPES BoolAttributeWidget = [''bool'']"

subsection \<open>Methods as state transformers that may raise\<close>

text \<open>
  A method runs on the widget and the world and either returns or raises; in both cases
  the mutations made so far stay.
\<close>

type_synonym state = "binding \<times> world"

type_synonym 'a action = "state \<Rightarrow> 'a outcome \<times> state"

definition ret :: "'a \<Rightarrow> 'a action" where
  "ret a s = (Return a, s)"

definition raise :: "error \<Rightarrow> 'a action" where
  "raise e s = (Raise e, s)"

definition bindE :: "'a action \<Rightarrow> ('a \<Rightarrow> 'b action) \<Rightarrow> 'b action" where
  "bindE m f s = (case m s of (Return a, s') \<Rightarrow> f a s' | (Raise e, s') \<Rightarrow> (Raise e, s'))"

definition seqE :: "'a action \<Rightarrow> 'b action \<Rightarrow> 'b action" where
  "seqE m n = bindE m (\<lambda>_. n)"

text \<open>\<^verbatim>\<open>try: m except Exception: h\<close>.\<close>

definition tryExcept :: "'a action \<Rightarrow> 'a action \<Rightarrow> 'a action" where
  "tryExcept m h s = (case m s of (Return a, s') \<Rightarrow> (Return a, s') | (Raise e, s') \<Rightarrow> h s')"

definition getB :: "binding action" where
  "getB s = (Return (fst s), s)"

definition modifyB :: "(binding \<Rightarrow> binding) \<Rightarrow> unit action" where
  "modifyB f s = (Return (), f (fst s), snd s)"

definition modifyW :: "(world \<Rightarrow> world) \<Rightarrow> unit action" where
  "modifyW f s = (Return (), fst s, f (snd s))"

definition liftO :: "'a outcome \<Rightarrow> 'a action" where
  "liftO r s = (r, s)"

definition cmds_getAttr :: "pyval \<Rightarrow> pyval action" where
  "cmds_getAttr p s = (case getAttr p (snd s) of (r, w') \<Rightarrow> (r, fst s, w'))"

definition cmds_setAttr :: "pyval \<Rightarrow> pyval \<Rightarrow> string option \<Rightarrow> unit action" where
  "cmds_setAttr p v ty s = (case setAttr p v ty (snd s) of (r, w') \<Rightarrow> (r, fst s, w'))"

text \<open>\<^verbatim>\<open>self.valueChanged.emit()\<close>; the listeners are outside the module.\<close>

definition emitValueChanged :: "unit action" where
  "emitValueChanged = modifyW (\<lambda>w. w\<lparr>valueChangedEmits := valueChangedEmits w + 1\<rparr>)"

subsection \<open>The plug a read or write goes to\<close>

text \<open>
  \<^verbatim>\<open>_onGetAttr\<close>, \<^verbatim>\<open>_onSetAttr\<close> and \<^verbatim>\<open>connectToNode\<close> each begin with the same
  lines: with a non-empty \<^verbatim>\<open>_sceneAttributeData\<close> the plug is its
  \<^verbatim>\<open>'overridePlug'\<close> entry, and the method returns at once when that entry is missing or
  falsy (\<open>None\<close> here); with an empty one the plug is the widget's own.
\<close>

definition effectivePlug :: "binding \<Rightarrow> pyval option" where
  "effectivePlug b =
     (if sceneAttributeData b \<noteq> [] then
        (if \<not> py_truthy (dict_get (sceneAttributeData b) K_OVR_PLUG_OVERRIDE_DATA_KEYS PNone)
         then None
         else Some (dict_get (sceneAttributeData b) K_OVR_PLUG_OVERRIDE_DATA_KEYS PNone))
      else Some (PStr (plugString b)))"

subsection \<open>Writing through: \<^verbatim>\<open>_onSetAttr\<close>\<close>

text \<open>
  The \<^verbatim>\<open>getAttr\<close> of the widget's own plug stands before the \<^verbatim>\<open>try\<close>, so its failure
  propagates; a failing \<^verbatim>\<open>setAttr\<close> is logged and swallowed.
\<close>

definition onSetAttr :: "bool \<Rightarrow> unit action" where
  "onSetAttr force = bindE getB (\<lambda>b.
     if \<not> force \<and> \<not> isConnected b then ret ()
     else (case effectivePlug b of
             None \<Rightarrow> ret ()
           | Some p \<Rightarrow>
               bindE (cmds_getAttr (PStr (plugString b))) (\<lambda>_.
                 tryExcept
                   (if attributeType b = ''string''
                    then cmds_setAttr p (u_value b) (Some (attributeType b))
                    else cmds_setAttr p (u_value b) None)
                   (ret ()))))"

subsection \<open>Edits made in a control: \<^verbatim>\<open>_widgetUpdated\<close> and the control handlers\<close>

definition Base_widgetUpdated :: "unit action" where
  "Base_widgetUpdated = emitValueChanged"

definition String_widgetUpdated :: "unit action" where
  "String_widgetUpdated =
     seqE (modifyB (\<lambda>b. b\<lparr>u_value := lineEdit b\<rparr>)) (seqE (onSetAttr False) Base_widgetUpdated)"

definition Enum_widgetUpdated :: "unit action" where
  "Enum_widgetUpdated =
     seqE (modifyB (\<lambda>b. b\<lparr>u_value := comboBoxIndex b\<rparr>)) (seqE (onSetAttr False) Base_widgetUpdated)"

definition FloatSimple_widgetUpdated :: "unit action" where
  "FloatSimple_widgetUpdated = seqE (onSetAttr False) Base_widgetUpdated"

definition IntegerSimple_widgetUpdated :: "unit action" where
  "IntegerSimple_widgetUpdated = seqE (onSetAttr False) Base_widgetUpdated"

definition Bool_widgetUpdated :: "unit action" where
  "Bool_widgetUpdated =
     seqE (modifyB (\<lambda>b. b\<lparr>u_value := PBool (checkBox b)\<rparr>)) (seqE (onSetAttr False) Base_widgetUpdated)"

text \<open>The call \<^verbatim>\<open>self._widgetUpdated()\<close>, resolved by the widget's class.\<close>

definition widgetUpdated :: "unit action" where
  "widgetUpdated = bindE getB (\<lambda>b.
     case cls b of
       BaseAttributeWidget \<Rightarrow> Base_widgetUpdated
     | StringAttributeWidget \<Rightarrow> String_widgetUpdated
     | EnumAttributeWidget \<Rightarrow> Enum_widgetUpdated
     | FloatNumericSimpleAttributeWidget \<Rightarrow> FloatSimple_widgetUpdated
     | FloatNumericAttributeWidget \<Rightarrow> FloatSimple_widgetUpdated
     | IntegerNumericSimpleAttributeWidget \<Rightarrow> IntegerSimple_widgetUpdated
     | IntegerNumericAttributeWidget \<Rightarrow> IntegerSimple_widgetUpdated
     | BoolAttributeWidget \<Rightarrow> Bool_widgetUpdated)"

text \<open>
  A silent update detaches the control's handler, sets the control and attaches the
  handler again: only the control changes.
\<close>

definition FloatSimple_silentSpinBoxUpdate :: "pyval \<Rightarrow> unit action" where
  "FloatSimple_silentSpinBoxUpdate val = modifyB (\<lambda>b. b\<lparr>spinBox := val\<rparr>)"

definition FloatSimple_spinBoxUpdated :: "pyval \<Rightarrow> unit action" where
  "FloatSimple_spinBoxUpdated val = seqE (modifyB (\<lambda>b. b\<lparr>u_value := val\<rparr>)) widgetUpdated"

definition Float_silentSliderUpdate :: "pyval \<Rightarrow> unit action" where
  "Float_silentSliderUpdate val =
     bindE (liftO (py_mul_float val K_FLOAT_WIDGET_FACTOR)) (\<lambda>x. modifyB (\<lambda>b. b\<lparr>slider := x\<rparr>))"

definition Float_spinBoxUpdated :: "pyval \<Rightarrow> unit action" where
  "Float_spinBoxUpdated val = seqE (Float_silentSliderUpdate val) (FloatSimple_spinBoxUpdated val)"

definition Float_sliderUpdated :: "pyval \<Rightarrow> unit action" where
  "Float_sliderUpdated val =
     bindE (liftO (py_div_float val K_FLOAT_WIDGET_FACTOR)) (\<lambda>q.
       seqE (modifyB (\<lambda>b. b\<lparr>u_value := q\<rparr>))
         (seqE (bindE getB (\<lambda>b. FloatSimple_silentSpinBoxUpdate (u_value b))) widgetUpdated))"

definition IntegerSimple_silentSpinBoxUpdate :: "pyval \<Rightarrow> unit action" where
  "IntegerSimple_silentSpinBoxUpdate val = modifyB (\<lambda>b. b\<lparr>spinBox := val\<rparr>)"

definition IntegerSimple_spinBoxUpdated :: "pyval \<Rightarrow> unit action" where
  "IntegerSimple_spinBoxUpdated val = seqE (modifyB (\<lambda>b. b\<lparr>u_value := val\<rparr>)) widgetUpdated"

definition Integer_silentSliderUpdate :: "pyval \<Rightarrow> unit action" where
  "Integer_silentSliderUpdate val = modifyB (\<lambda>b. b\<lparr>slider := val\<rparr>)"

definition Integer_spinBoxUpdated :: "pyval \<Rightarrow> unit action" where
  "Integer_spinBoxUpdated val = seqE (Integer_silentSliderUpdate val) (IntegerSimple_spinBoxUpdated val)"

definition Integer_sliderUpdated :: "pyval \<Rightarrow> unit action" where
  "Integer_sliderUpdated val =
     seqE (IntegerSimple_silentSpinBoxUpdate val)
       (seqE (modifyB (\<lambda>b. b\<lparr>u_value := val\<rparr>)) widgetUpdated)"

text \<open>
  \<^verbatim>\<open>QCheckBox.setChecked\<close> with the handler attached: when the state changes,
  \<^verbatim>\<open>stateChanged\<close> fires and runs the attached \<^verbatim>\<open>_widgetUpdated\<close>.
\<close>

definition checkBox_setChecked :: "pyval \<Rightarrow> unit action" where
  "checkBox_setChecked v = bindE getB (\<lambda>b.
     if checkBox b = py_truthy v then ret ()
     else seqE (modifyB (\<lambda>b. b\<lparr>checkBox := py_truthy v\<rparr>)) Bool_widgetUpdated)"

subsection \<open>Refreshing the controls: \<^verbatim>\<open>_updateWidgetValues\<close>\<close>

definition Base_updateWidgetValues :: "unit action" where
  "Base_updateWidgetValues = emitValueChanged"

definition String_updateWidgetValues :: "unit action" where
  "String_updateWidgetValues =
     seqE (bindE getB (\<lambda>b.
             if \<not> py_eq (u_value b) (lineEdit b)
             then modifyB (\<lambda>b. b\<lparr>lineEdit := u_value b\<rparr>)
             else ret ()))
       Base_updateWidgetValues"

definition Enum_silentUpdateSelf :: "unit action" where
  "Enum_silentUpdateSelf = modifyB (\<lambda>b. b\<lparr>comboBoxIndex := u_value b\<rparr>)"

text \<open>
  The first statement of \<^verbatim>\<open>EnumAttributeWidget._updateWidgetValues\<close> is
  \<^verbatim>\<open>self._silentUpdateSelf\<close>, without parentheses: the bound method is looked up and
  dropped, \<^verbatim>\<open>_silentUpdateSelf\<close> does not run.
\<close>

definition Enum_updateWidgetValues :: "unit action" where
  "Enum_updateWidgetValues = seqE (ret ()) Base_updateWidgetValues"

definition FloatSimple_updateWidgetValues :: "unit action" where
  "FloatSimple_updateWidgetValues =
     seqE (bindE getB (\<lambda>b.
             if \<not> py_eq (u_value b) (spinBox b)
             then FloatSimple_silentSpinBoxUpdate (u_value b)
             else ret ()))
       Base_updateWidgetValues"

definition Float_updateWidgetValues :: "unit action" where
  "Float_updateWidgetValues =
     seqE FloatSimple_updateWidgetValues
       (bindE getB (\<lambda>b.
          bindE (liftO (py_div_float (slider b) K_FLOAT_WIDGET_FACTOR)) (\<lambda>q.
            if \<not> py_eq (u_value b) q
            then bindE (liftO (py_mul_float (u_value b) K_FLOAT_WIDGET_FACTOR)) Float_silentSliderUpdate
            else ret ())))"

definition IntegerSimple_updateWidgetValues :: "unit action" where
  "IntegerSimple_updateWidgetValues =
     seqE (bindE getB (\<lambda>b.
             if \<not> py_eq (u_value b) (spinBox b)
             then IntegerSimple_silentSpinBoxUpdate (u_value b)
             else ret ()))
       Base_updateWidgetValues"

definition Integer_updateWidgetValues :: "unit action" where
  "Integer_updateWidgetValues =
     seqE IntegerSimple_updateWidgetValues
       (bindE getB (\<lambda>b.
          if \<not> py_eq (u_value b) (slider b)
          then Integer_silentSliderUpdate (u_value b)
          else ret ()))"

definition Bool_updateWidgetValues :: "unit action" where
  "Bool_updateWidgetValues =
     seqE (bindE getB (\<lambda>b. checkBox_setChecked (u_value b))) Base_updateWidgetValues"

text \<open>The call \<^verbatim>\<open>self._updateWidgetValues()\<close>, resolved by the widget's class.\<close>

definition updateWidgetValues :: "unit action" where
  "updateWidgetValues = bindE getB (\<lambda>b.
     case cls b of
       BaseAttributeWidget \<Rightarrow> Base_updateWidgetValues
     | StringAttributeWidget \<Rightarrow> String_updateWidgetValues
     | EnumAttributeWidget \<Rightarrow> Enum_updateWidgetValues
     | FloatNumericSimpleAttributeWidget \<Rightarrow> FloatSimple_updateWidgetValues
     | FloatNumericAttributeWidget \<Rightarrow> Float_updateWidgetValues
     | IntegerNumericSimpleAttributeWidget \<Rightarrow> IntegerSimple_updateWidgetValues
     | IntegerNumericAttributeWidget \<Rightarrow> Integer_updateWidgetValues
     | BoolAttributeWidget \<Rightarrow> Bool_updateWidgetValues)"

subsection \<open>Reading through: \<^verbatim>\<open>_onGetAttr\<close>\<close>

definition onGetAttr :: "pyval action" where
  "onGetAttr = bindE getB (\<lambda>b.
     if \<not> isConnected b then ret PNone
     else (case effectivePlug b of
             None \<Rightarrow> ret PNone
           | Some p \<Rightarrow>
               bindE (cmds_getAttr p) (\<lambda>val.
                 if \<not> py_truthy val then ret PNone
                 else seqE (modifyB (\<lambda>b. b\<lparr>u_value := val\<rparr>))
                        (seqE updateWidgetValues (ret val)))))"

subsection \<open>The \<^verbatim>\<open>value\<close> property\<close>

definition get_value :: "binding \<Rightarrow> pyval" where
  "get_value b = u_value b"

definition set_value :: "pyval \<Rightarrow> unit action" where
  "set_value val =
     seqE (modifyB (\<lambda>b. b\<lparr>u_value := val\<rparr>)) (seqE (onSetAttr False) updateWidgetValues)"

subsection \<open>Dirty notifications and the deferred refresh\<close>

text \<open>
  \<^verbatim>\<open>_onDirtyPlug\<close> queries two names from the plug it is handed and uses neither; it
  appends a marker and schedules \<^verbatim>\<open>_processDeferredUpdateRequest\<close> when that marker is
  the only one.
\<close>

definition onDirtyPlug :: "state \<Rightarrow> state" where
  "onDirtyPlug s =
     (let b = (fst s)\<lparr>deferredUpdateRequest := deferredUpdateRequest (fst s) @ [True]\<rparr> in
      if length (deferredUpdateRequest b) = 1 then (b, evalDeferred (snd s)) else (b, snd s))"

definition processDeferredUpdateRequest :: "unit action" where
  "processDeferredUpdateRequest =
     seqE (bindE getB (\<lambda>b. if deferredUpdateRequest b \<noteq> [] then seqE onGetAttr (ret ()) else ret ()))
       (modifyB (\<lambda>b. b\<lparr>deferredUpdateRequest := []\<rparr>))"

subsection \<open>Connecting and disconnecting\<close>

definition getW :: "world action" where
  "getW s = (Return (snd s), s)"

text \<open>
  An \<^verbatim>\<open>MCallbackIdWrapper\<close> removes its callback from the host in \<^verbatim>\<open>__del__\<close>. The
  wrappers are referenced from \<^verbatim>\<open>_nodeCallbacks\<close> only, so rebinding that attribute
  to a new list finalises every wrapper of the old one.
\<close>

definition releaseCallbacks :: "nat list \<Rightarrow> world \<Rightarrow> world" where
  "releaseCallbacks ids w = fold removeCallback ids w"

text \<open>
  The last lines of \<^verbatim>\<open>connectToNode\<close>: register the dirty-plug callback with the host,
  keep its wrapper, set the connected flag. The node handed to the host comes from
  \<^verbatim>\<open>getNodeFromPlugString\<close>, whose helper \<^verbatim>\<open>splitPlugString\<close> the module neither
  defines nor imports and whose \<^verbatim>\<open>try\<close> turns every exception into \<^verbatim>\<open>None\<close>; what
  the host does with that node is outside the module, and the registration is taken to
  succeed.
\<close>

definition connectToNode_register :: "unit action" where
  "connectToNode_register =
     bindE getW (\<lambda>w.
       case addNodeDirtyPlugCallback w of
         (cb, w') \<Rightarrow>
           seqE (modifyW (\<lambda>_. w'))
             (seqE (modifyB (\<lambda>b. b\<lparr>nodeCallbacks := nodeCallbacks b @ [cb]\<rparr>))
                (modifyB (\<lambda>b. b\<lparr>isConnected := True\<rparr>))))"

definition connectToNode :: "bool \<Rightarrow> unit action" where
  "connectToNode pull =
     seqE (bindE getB (\<lambda>b.
             seqE (modifyW (releaseCallbacks (nodeCallbacks b)))
               (modifyB (\<lambda>b. b\<lparr>nodeCallbacks := [], deferredUpdateRequest := []\<rparr>))))
       (bindE getB (\<lambda>b.
          if isConnected b then ret ()
          else (case effectivePlug b of
                  None \<Rightarrow> ret ()
                | Some p \<Rightarrow>
                    bindE getW (\<lambda>w.
                      if \<not> objExists p w then ret ()
                      else if attributeType b \<notin> set (VALID_ATTR_TYPES (cls b)) then ret ()
                      else if pull then
                        (\<lambda>s. case onGetAttr s of
                                (Raise e, s') \<Rightarrow> (Return (), s')
                              | (Return v, s') \<Rightarrow> seqE (set_value v) connectToNode_register s')
                      else seqE (onSetAttr True) connectToNode_register))))"

text \<open>
  The loop at the end of \<^verbatim>\<open>disConnectFromNode\<close> binds each wrapper to the name
  \<^verbatim>\<open>_callback\<close> and deletes that name; the list keeps its elements.
\<close>

fun del_each :: "nat list \<Rightarrow> unit action" where
  "del_each [] = ret ()"
| "del_each (c # cs) = seqE (ret ()) (del_each cs)"

definition disConnectFromNode :: "unit action" where
  "disConnectFromNode = bindE getB (\<lambda>b.
     if \<not> isConnected b then ret ()
     else seqE onGetAttr
            (seqE (modifyB (\<lambda>b. b\<lparr>isConnected := False\<rparr>))
               (bindE getB (\<lambda>b. del_each (nodeCallbacks b)))))"

definition setLiveMode :: "bool \<Rightarrow> unit action" where
  "setLiveMode st = bindE getB (\<lambda>b.
     if st = isConnected b then ret ()
     else if st then connectToNode False
     else disConnectFromNode)"

subsection \<open>The enumeration labels\<close>

text \<open>
  The combo box keeps its items and its current index. \<^verbatim>\<open>removeItem\<close> ignores an index
  out of range. \<^verbatim>\<open>setCurrentIndex\<close> with the handler attached runs
  \<^verbatim>\<open>_widgetUpdated\<close> when the index changes. What adding and removing items does to
  the current index is left out.
\<close>

definition comboBox_removeItem :: "nat \<Rightarrow> pyval list \<Rightarrow> pyval list" where
  "comboBox_removeItem i items = (if i < length items then take i items @ drop (Suc i) items else items)"

definition comboBox_setCurrentIndex :: "pyval \<Rightarrow> unit action" where
  "comboBox_setCurrentIndex v = bindE getB (\<lambda>b.
     if py_eq (comboBoxIndex b) v then ret ()
     else seqE (modifyB (\<lambda>b. b\<lparr>comboBoxIndex := v\<rparr>)) Enum_widgetUpdated)"

definition get_enumValues :: "binding \<Rightarrow> pyval" where
  "get_enumValues b = enumValues b"

definition set_enumValues :: "pyval \<Rightarrow> unit action" where
  "set_enumValues val =
     (case val of
        PList xs \<Rightarrow>
          bindE getB (\<lambda>b.
            if \<not> py_eq val (enumValues b) then
              seqE (modifyB (\<lambda>b. b\<lparr>comboBoxItems :=
                       fold comboBox_removeItem [0 ..< length (comboBoxItems b) - 1] (comboBoxItems b)\<rparr>))
                (seqE (modifyB (\<lambda>b. b\<lparr>comboBoxItems := comboBoxItems b @ xs\<rparr>))
                   (seqE (modifyB (\<lambda>b. b\<lparr>enumValues := val\<rparr>))
                      (seqE (modifyB (\<lambda>b. b\<lparr>comboBoxItems := comboBoxItems b @ xs\<rparr>))
                         (bindE getB (\<lambda>b. comboBox_setCurrentIndex (get_value b))))))
            else ret ())
      | _ \<Rightarrow> raise TypeError)"

subsection \<open>Enumerating the properties of a class\<close>

text \<open>
  \<^verbatim>\<open>vars(cls)\<close>: the names a class body binds, each a property, a plain function or
  something else (a signal, a constant). \<^verbatim>\<open>cls.__bases__\<close>: the direct bases; the Qt
  base of \<^verbatim>\<open>BaseAttributeWidget\<close> binds no Python property and is left out.
\<close>

datatype member_kind = Property | Function | Other

fun class_vars :: "widget_class \<Rightarrow> (string \<times> member_kind) list" where
  "class_vars BaseAttributeWidget =
     [(''valueChanged'', Other), (''staticMetaObject'', Other), (''VALID_ATTR_TYPES'', Other),
      (''ALWAYS_SKIP_PROPERTIES'', Other), (''PUSH_SKIP_PROPERTIES'', Other), (''GARBAGE_TEST'', Other),
      (''__init__'', Function), (''wheelEvent'', Function),
      (''node'', Property), (''attribute'', Property), (''attributeType'', Property),
      (''isConnected'', Property), (''plugString'', Property), (''value'', Property),
      (''_onGetAttr'', Function), (''_onSetAttr'', Function), (''_onDirtyPlug'', Function),
      (''_processDeferredUpdateRequest'', Function), (''_buildWidget'', Function),
      (''_setupSocketConnections'', Function), (''_updateWidgetValues'', Function),
      (''_widgetUpdated'', Function), (''_findOverrideNodeForLayer'', Function),
      (''_getAttributeInformation'', Function), (''_getAllProperties'', Function),
      (''connectToNode'', Function), (''disConnectFromNode'', Function), (''setLiveMode'', Function),
      (''stealMyData'', Function), (''pushInData'', Function), (''resetToDefaultValue'', Function)]"
| "class_vars StringAttributeWidget =
     [(''VALID_ATTR_TYPES'', Other), (''__init__'', Function), (''_getAttributeInformation'', Function),
      (''_buildWidget'', Function), (''_setupSocketConnections'', Function),
      (''_updateWidgetValues'', Function), (''_widgetUpdated'', Function)]"
| "class_vars EnumAttributeWidget =
     [(''VALID_ATTR_TYPES'', Other), (''__init__'', Function), (''enumValues'', Property),
      (''_getAttributeInformation'', Function), (''_buildWidget'', Function),
      (''_setupSocketConnections'', Function), (''_silentUpdateSelf'', Function),
      (''_updateWidgetValues'', Function), (''_widgetUpdated'', Function)]"
| "class_vars FloatNumericSimpleAttributeWidget =
     [(''IS_SIMPLE'', Other), (''VALID_ATTR_TYPES'', Other), (''__init__'', Function),
      (''_getAttributeInformation'', Function), (''_buildWidget'', Function),
      (''_setupSocketConnections'', Function), (''_spinBoxUpdated'', Function),
      (''_silentSpinBoxUpdate'', Function), (''_updateWidgetValues'', Function),
      (''_widgetUpdated'', Function)]"
| "class_vars FloatNumericAttributeWidget =
     [(''IS_SIMPLE'', Other), (''__init__'', Function), (''_buildWidget'', Function),
      (''_setupSocketConnections'', Function), (''_spinBoxUpdated'', Function),
      (''_sliderUpdated'', Function), (''_silentSliderUpdate'', Function),
      (''_updateWidgetValues'', Function)]"
| "class_vars IntegerNumericSimpleAttributeWidget =
     [(''IS_SIMPLE'', Other), (''VALID_ATTR_TYPES'', Other), (''__init__'', Function),
      (''_getAttributeInformation'', Function), (''_buildWidget'', Function),
      (''_setupSocketConnections'', Function), (''_spinBoxUpdated'', Function),
      (''_silentSpinBoxUpdate'', Function), (''_updateWidgetValues'', Function),
      (''_widgetUpdated'', Function)]"
| "class_vars IntegerNumericAttributeWidget =
     [(''IS_SIMPLE'', Other), (''__init__'', Function), (''_buildWidget'', Function),
      (''_setupSocketConnections'', Function), (''_spinBoxUpdated'', Function),
      (''_sliderUpdated'', Function), (''_silentSliderUpdate'', Function),
      (''_updateWidgetValues'', Function)]"
| "class_vars BoolAttributeWidget =
     [(''VALID_ATTR_TYPES'', Other), (''__init__'', Function), (''_getAttributeInformation'', Function),
      (''_buildWidget'', Function), (''_setupSocketConnections'', Function),
      (''_updateWidgetValues'', Function), (''_widgetUpdated'', Function)]"

fun class_bases :: "widget_class \<Rightarrow> widget_class list" where
  "class_bases BaseAttributeWidget = []"
| "class_bases StringAttributeWidget = [BaseAttributeWidget]"
| "class_bases EnumAttributeWidget = [BaseAttributeWidget]"
| "class_bases FloatNumericSimpleAttributeWidget = [BaseAttributeWidget]"
| "class_bases FloatNumericAttributeWidget = [FloatNumericSimpleAttributeWidget, BaseAttributeWidget]"
| "class_bases IntegerNumericSimpleAttributeWidget = [BaseAttributeWidget]"
| "class_bases IntegerNumericAttributeWidget = [IntegerNumericSimpleAttributeWidget, BaseAttributeWidget]"
| "class_bases BoolAttributeWidget = [BaseAttributeWidget]"

text \<open>The bodies of the two loops of \<^verbatim>\<open>_getAllProperties\<close>, with their \<^verbatim>\<open>continue\<close> tests in
  order, and the loops as folds.\<close>

definition localStep :: "string \<times> member_kind \<Rightarrow> string list \<Rightarrow> string list" where
  "localStep am validAttrs =
     (case am of (attr, m) \<Rightarrow>
        if startswith_underscore attr then validAttrs
        else if m = Function then validAttrs
        else if m = Property \<and> attr \<notin> set ALWAYS_SKIP_PROPERTIES then validAttrs @ [attr]
        else validAttrs)"

definition parentStep :: "string \<times> member_kind \<Rightarrow> string list \<Rightarrow> string list" where
  "parentStep am validAttrs =
     (case am of (attr, m) \<Rightarrow>
        if attr \<in> set validAttrs then validAttrs
        else if startswith_underscore attr then validAttrs
        else if m = Function then validAttrs
        else if m \<noteq> Property \<or> attr \<in> set ALWAYS_SKIP_PROPERTIES then validAttrs
        else if attr \<notin> set validAttrs then validAttrs @ [attr]
        else validAttrs)"

definition getAllProperties :: "widget_class \<Rightarrow> string list" where
  "getAllProperties c =
     fold (\<lambda>parent validAttrs. fold parentStep (class_vars parent) validAttrs)
       (class_bases c) (fold localStep (class_vars c) [])"

text \<open>\<^verbatim>\<open>getattr(self, prop)\<close> and \<^verbatim>\<open>setattr(self, prop, v)\<close> on the declared properties.\<close>

definition getattr :: "binding \<Rightarrow> string \<Rightarrow> pyval outcome" where
  "getattr b prop =
     (if prop = ''node'' then Return (PStr (node b))
      else if prop = ''attribute'' then Return (PStr (attribute b))
      else if prop = ''attributeType'' then Return (PStr (attributeType b))
      else if prop = ''isConnected'' then Return (PBool (isConnected b))
      else if prop = ''plugString'' then Return (PStr (plugString b))
      else if prop = ''value'' then Return (get_value b)
      else if prop = ''enumValues'' \<and> cls b = EnumAttributeWidget then Return (get_enumValues b)
      else Raise AttributeError)"

definition setattr :: "string \<Rightarrow> pyval \<Rightarrow> unit action" where
  "setattr prop v = bindE getB (\<lambda>b.
     if prop = ''value'' then set_value v
     else if prop = ''enumValues'' \<and> cls b = EnumAttributeWidget then set_enumValues v
     else raise AttributeError)"

subsection \<open>Snapshot and restore\<close>

fun stealLoop :: "binding \<Rightarrow> string list \<Rightarrow> pydict \<Rightarrow> pydict outcome" where
  "stealLoop b [] returnData = Return returnData"
| "stealLoop b (prop # rest) returnData =
     (case getattr b prop of
        Raise e \<Rightarrow> Raise e
      | Return v \<Rightarrow> stealLoop b rest (AList.update prop v returnData))"

definition stealMyData :: "binding \<Rightarrow> pydict outcome" where
  "stealMyData b =
     stealLoop b (getAllProperties (cls b))
       (if sceneAttributeData b \<noteq> [] then sceneAttributeData b else [])"

definition resetToDefaultValue :: "unit action" where
  "resetToDefaultValue = bindE getB (\<lambda>b.
     if dict_get (attributeDefaults b) ''value'' (PStr ''dhgwsdbsadbsdb'') \<noteq> PStr ''dhgwsdbsadbsdb''
     then set_value (dict_get (attributeDefaults b) ''value'' PNone)
     else ret ())"

fun pushLoop :: "pydict \<Rightarrow> string list \<Rightarrow> unit action" where
  "pushLoop data [] = ret ()"
| "pushLoop data (prop # rest) =
     (if prop \<in> set PUSH_SKIP_PROPERTIES then pushLoop data rest
      else if dict_get data prop (PStr GARBAGE_TEST) \<noteq> PStr GARBAGE_TEST
      then seqE (setattr prop (dict_get data prop PNone)) (pushLoop data rest)
      else pushLoop data rest)"

definition pushInData :: "pydict \<Rightarrow> unit action" where
  "pushInData data =
     (if data = [] then resetToDefaultValue
      else seqE (modifyB (\<lambda>b. b\<lparr>sceneAttributeData := data\<rparr>))
             (bindE getB (\<lambda>b. pushLoop data (getAllProperties (cls b)))))"

subsection \<open>Construction\<close>

text \<open>The keyword arguments the constructors read, each present or not.\<close>

record kwargs =
  kw_value :: "pyval option"
  kw_displayName :: "pyval option"
  kw_increment :: "pyval option"
  kw_enumStrings :: "pyval option"

definition kwargs_get :: "pyval option \<Rightarrow> pyval \<Rightarrow> pyval" where
  "kwargs_get entry dflt = (case entry of Some v \<Rightarrow> v | None \<Rightarrow> dflt)"

text \<open>\<^verbatim>\<open>d[k]\<close>: a \<^verbatim>\<open>KeyError\<close> on a missing key.\<close>

definition dict_index :: "pydict \<Rightarrow> string \<Rightarrow> pyval outcome" where
  "dict_index d k = (case map_of d k of Some v \<Rightarrow> Return v | None \<Rightarrow> Raise KeyError)"

text \<open>
  The widget before \<^verbatim>\<open>__init__\<close> has assigned anything; its controls are in the state
  Qt creates them in (no text, no item, value zero, unchecked).
\<close>

definition blank :: "widget_class \<Rightarrow> binding" where
  "blank c =
     \<lparr>cls = c, node = [], attribute = [], plugString = [], displayName = PNone,
      attributeType = [], isConnected = False, attributeDefaults = [], u_value = PNone,
      customIncrement = PNone, deferredUpdateRequest = [], nodeCallbacks = [],
      sceneAttributeData = [], enumValues = PNone, lineEdit = PStr [], comboBoxItems = [],
      comboBoxIndex = PInt (- 1), spinBox = PInt 0, slider = PInt 0, checkBox = False\<rparr>"

text \<open>
  \<^verbatim>\<open>_getAttributeInformation\<close>, by class. The float and the integer widget run the same
  lines on their own table of defaults.
\<close>

definition Base_getAttributeInformation :: "pydict action" where
  "Base_getAttributeInformation = ret []"

definition String_getAttributeInformation :: "pydict action" where
  "String_getAttributeInformation = bindE getB (\<lambda>b. bindE getW (\<lambda>w.
     if \<not> objExists (PStr (plugString b)) w then ret [(''value'', PStr [])]
     else bindE (cmds_getAttr (PStr (plugString b))) (\<lambda>v.
            ret (AList.update ''value'' v [(''value'', PStr [])]))))"

definition Enum_getAttributeInformation :: "pydict action" where
  "Enum_getAttributeInformation = bindE getB (\<lambda>b. bindE getW (\<lambda>w.
     if \<not> objExists (PStr (plugString b)) w then ret [(''value'', PBool False)]
     else (case plugs w (node b @ ''.'' @ attribute b) of
             None \<Rightarrow> raise ValueError
           | Some a \<Rightarrow>
               bindE (cmds_getAttr (PStr (plugString b))) (\<lambda>v.
                 ret (AList.update ''value'' v
                        (AList.update ''enumStrings'' (PList (map PStr (split_on CHR '':'' (aenum a))))
                           [(''value'', PBool False)]))))))"

definition numeric_getAttributeInformation :: "pydict \<Rightarrow> pydict action" where
  "numeric_getAttributeInformation dflts = bindE getB (\<lambda>b. bindE getW (\<lambda>w.
     if \<not> objExists (PStr (plugString b)) w then ret dflts
     else bindE (cmds_getAttr (PStr (plugString b))) (\<lambda>tempValue.
            case plugs w (node b @ ''.'' @ attribute b) of
              None \<Rightarrow> raise ValueError
            | Some a \<Rightarrow>
                ret ((case asoftRange a of Some r \<Rightarrow> AList.update ''softRange'' r | None \<Rightarrow> id)
                      ((case amaximum a of Some m \<Rightarrow> AList.update ''maximum'' m | None \<Rightarrow> id)
                        ((case aminimum a of Some m \<Rightarrow> AList.update ''minimum'' m | None \<Rightarrow> id)
                          ((if py_truthy tempValue then AList.update ''value'' tempValue else id)
                             dflts)))))))"

definition FloatSimple_getAttributeInformation :: "pydict action" where
  "FloatSimple_getAttributeInformation = numeric_getAttributeInformation K_FLOAT_ATTR_DEFAULTS"

definition IntegerSimple_getAttributeInformation :: "pydict action" where
  "IntegerSimple_getAttributeInformation = numeric_getAttributeInformation K_INTEGER_ATTR_DEFAULTS"

definition Bool_getAttributeInformation :: "pydict action" where
  "Bool_getAttributeInformation = bindE getB (\<lambda>b. bindE getW (\<lambda>w.
     if \<not> objExists (PStr (plugString b)) w then ret [(''value'', PBool False)]
     else bindE (cmds_getAttr (PStr (plugString b))) (\<lambda>v.
            ret (AList.update ''value'' v [(''value'', PBool False)]))))"

definition getAttributeInformation :: "pydict action" where
  "getAttributeInformation = bindE getB (\<lambda>b.
     case cls b of
       BaseAttributeWidget \<Rightarrow> Base_getAttributeInformation
     | StringAttributeWidget \<Rightarrow> String_getAttributeInformation
     | EnumAttributeWidget \<Rightarrow> Enum_getAttributeInformation
     | FloatNumericSimpleAttributeWidget \<Rightarrow> FloatSimple_getAttributeInformation
     | FloatNumericAttributeWidget \<Rightarrow> FloatSimple_getAttributeInformation
     | IntegerNumericSimpleAttributeWidget \<Rightarrow> IntegerSimple_getAttributeInformation
     | IntegerNumericAttributeWidget \<Rightarrow> IntegerSimple_getAttributeInformation
     | BoolAttributeWidget \<Rightarrow> Bool_getAttributeInformation)"

text \<open>\<^verbatim>\<open>_buildWidget\<close>, by class: the value taken from the defaults and the controls' first contents.\<close>

definition String_buildWidget :: "unit action" where
  "String_buildWidget = bindE getB (\<lambda>b.
     bindE (liftO (dict_index (attributeDefaults b) ''value'')) (\<lambda>v.
       modifyB (\<lambda>b. b\<lparr>u_value := v, lineEdit := v\<rparr>)))"

definition Enum_buildWidget :: "unit action" where
  "Enum_buildWidget = bindE getB (\<lambda>b.
     bindE (liftO (dict_index (attributeDefaults b) ''value'')) (\<lambda>v.
       bindE (liftO (dict_index (attributeDefaults b) ''enumStrings'')) (\<lambda>ev.
         case ev of
           PList xs \<Rightarrow>
             modifyB (\<lambda>b. b\<lparr>u_value := v, enumValues := ev,
                              comboBoxItems := comboBoxItems b @ xs, comboBoxIndex := v\<rparr>)
         | _ \<Rightarrow> raise TypeError)))"

definition FloatSimple_buildWidget :: "unit action" where
  "FloatSimple_buildWidget = bindE getB (\<lambda>b.
     bindE (liftO (dict_index (attributeDefaults b) ''value'')) (\<lambda>v.
       modifyB (\<lambda>b. b\<lparr>u_value := v, spinBox := v\<rparr>)))"

definition Float_buildWidget :: "unit action" where
  "Float_buildWidget =
     seqE FloatSimple_buildWidget
       (bindE getB (\<lambda>b.
          bindE (liftO (dict_index (attributeDefaults b) ''value'')) (\<lambda>v.
            modifyB (\<lambda>b. b\<lparr>slider := v\<rparr>))))"

definition IntegerSimple_buildWidget :: "unit action" where
  "IntegerSimple_buildWidget = bindE getB (\<lambda>b.
     bindE (liftO (dict_index (attributeDefaults b) ''value'')) (\<lambda>dv.
       bindE (liftO (py_int dv)) (\<lambda>v.
         modifyB (\<lambda>b. b\<lparr>u_value := v, spinBox := v\<rparr>))))"

definition Integer_buildWidget :: "unit action" where
  "Integer_buildWidget =
     seqE IntegerSimple_buildWidget
       (bindE getB (\<lambda>b.
          bindE (liftO (dict_index (attributeDefaults b) ''value'')) (\<lambda>dv.
            bindE (liftO (py_int dv)) (\<lambda>v.
              modifyB (\<lambda>b. b\<lparr>slider := v\<rparr>)))))"

definition Bool_buildWidget :: "unit action" where
  "Bool_buildWidget = bindE getB (\<lambda>b.
     bindE (liftO (dict_index (attributeDefaults b) ''value'')) (\<lambda>v.
       modifyB (\<lambda>b. b\<lparr>u_value := v\<rparr>)))"

definition buildWidget :: "unit action" where
  "buildWidget = bindE getB (\<lambda>b.
     case cls b of
       BaseAttributeWidget \<Rightarrow> ret ()
     | StringAttributeWidget \<Rightarrow> String_buildWidget
     | EnumAttributeWidget \<Rightarrow> Enum_buildWidget
     | FloatNumericSimpleAttributeWidget \<Rightarrow> FloatSimple_buildWidget
     | FloatNumericAttributeWidget \<Rightarrow> Float_buildWidget
     | IntegerNumericSimpleAttributeWidget \<Rightarrow> IntegerSimple_buildWidget
     | IntegerNumericAttributeWidget \<Rightarrow> Integer_buildWidget
     | BoolAttributeWidget \<Rightarrow> Bool_buildWidget)"

text \<open>
  \<^verbatim>\<open>_setupSocketConnections\<close> attaches the handlers. The two-control float widget then
  sets its spin box to the default plus one and back, and the boolean widget checks its
  box to the value, both with the handlers attached: \<^verbatim>\<open>QDoubleSpinBox.setValue\<close> runs
  \<^verbatim>\<open>_spinBoxUpdated\<close> when the value changes.
\<close>

definition Float_spinBox_setValue :: "pyval \<Rightarrow> unit action" where
  "Float_spinBox_setValue v = bindE getB (\<lambda>b.
     if py_eq (spinBox b) v then ret ()
     else seqE (modifyB (\<lambda>b. b\<lparr>spinBox := v\<rparr>)) (Float_spinBoxUpdated v))"

definition Float_setupSocketConnections :: "unit action" where
  "Float_setupSocketConnections = bindE getB (\<lambda>b.
     bindE (liftO (dict_index (attributeDefaults b) ''value'')) (\<lambda>dv.
       bindE (liftO (py_add_one dv)) (\<lambda>dv1.
         seqE (Float_spinBox_setValue dv1) (Float_spinBox_setValue dv))))"

definition Bool_setupSocketConnections :: "unit action" where
  "Bool_setupSocketConnections = bindE getB (\<lambda>b. checkBox_setChecked (u_value b))"

definition setupSocketConnections :: "unit action" where
  "setupSocketConnections = bindE getB (\<lambda>b.
     case cls b of
       FloatNumericAttributeWidget \<Rightarrow> Float_setupSocketConnections
     | BoolAttributeWidget \<Rightarrow> Bool_setupSocketConnections
     | _ \<Rightarrow> ret ())"

text \<open>
  \<^verbatim>\<open>BaseAttributeWidget.__init__\<close>. An argument is absent when it is \<^verbatim>\<open>None\<close>
  (\<open>None\<close>) or empty. The default of \<^verbatim>\<open>kwargs.get('value', ...)\<close> is evaluated whether
  or not the key is there. The assignments after the two type checks are
  \<open>Base_init_fields\<close>.
\<close>

definition Base_init_fields :: "kwargs \<Rightarrow> unit action" where
  "Base_init_fields kw =
     seqE (modifyB (\<lambda>b. b\<lparr>isConnected := False\<rparr>))
       (bindE getAttributeInformation (\<lambda>d.
          seqE (modifyB (\<lambda>b. b\<lparr>attributeDefaults := d\<rparr>))
            (bindE (liftO (dict_index d ''value'')) (\<lambda>dv.
               seqE (modifyB (\<lambda>b. b\<lparr>u_value := kwargs_get (kw_value kw) dv,
                         customIncrement := kwargs_get (kw_increment kw)
                            (PFloat K_FLOAT_WIDGET_STEP_INCREMENT),
                         deferredUpdateRequest := [], nodeCallbacks := [],
                         sceneAttributeData := []\<rparr>))
                 (seqE buildWidget setupSocketConnections)))))"

definition Base_init :: "string option \<Rightarrow> string option \<Rightarrow> string option \<Rightarrow> kwargs \<Rightarrow> unit action" where
  "Base_init node_arg attribute_arg attributeType_arg kw =
     (case (node_arg, attribute_arg, attributeType_arg) of
        (Some n, Some a, Some t) \<Rightarrow>
          (if n = [] \<or> a = [] \<or> t = [] then raise TypeError
           else
             seqE (modifyB (\<lambda>b. b\<lparr>node := n, attribute := a, plugString := n @ ''.'' @ a,
                                    displayName := kwargs_get (kw_displayName kw) PNone\<rparr>))
               (bindE getW (\<lambda>w.
                  bindE (liftO (getAttrType (n @ ''.'' @ a) w)) (\<lambda>ty.
                    if ty \<noteq> t then raise TypeError
                    else
                      seqE (modifyB (\<lambda>b. b\<lparr>attributeType := t\<rparr>))
                        (bindE getB (\<lambda>b.
                           if attributeType b \<notin> set (VALID_ATTR_TYPES (cls b)) then raise TypeError
                           else Base_init_fields kw))))))
      | _ \<Rightarrow> raise TypeError)"

text \<open>
  The subclasses' \<^verbatim>\<open>__init__\<close> pass their arguments on; the enumeration widget first reads
  \<^verbatim>\<open>enumStrings\<close>.
\<close>

definition widget_init ::
  "string option \<Rightarrow> string option \<Rightarrow> string option \<Rightarrow> kwargs \<Rightarrow> unit action" where
  "widget_init node_arg attribute_arg attributeType_arg kw = bindE getB (\<lambda>b.
     if cls b = EnumAttributeWidget
     then seqE (modifyB (\<lambda>b. b\<lparr>enumValues := kwargs_get (kw_enumStrings kw) (PList [])\<rparr>))
            (Base_init node_arg attribute_arg attributeType_arg kw)
     else Base_init node_arg attribute_arg attributeType_arg kw)"

text \<open>Calling a class: the new widget when \<^verbatim>\<open>__init__\<close> returns, no widget when it raises.\<close>

definition construct ::
  "widget_class \<Rightarrow> string option \<Rightarrow> string option \<Rightarrow> string option \<Rightarrow> kwargs \<Rightarrow> world
     \<Rightarrow> binding outcome \<times> world" where
  "construct c node_arg attribute_arg attributeType_arg kw w =
     (case widget_init node_arg attribute_arg attributeType_arg kw (blank c, w) of
        (Return u, b, w') \<Rightarrow> (Return b, w')
      | (Raise e, b, w') \<Rightarrow> (Raise e, w'))"

section \<open>An example scene\<close>

text \<open>
  A scene with one node, \<^verbatim>\<open>ball\<close>, and one plug of each kind; the widgets the
  constructors build on it; and a few states those widgets reach. They are the concrete
  inputs of the instances below.
\<close>

definition plainAttr :: "string \<Rightarrow> pyval \<Rightarrow> attr" where
  "plainAttr ty v =
     \<lparr>atype = ty, aval = v, aminimum = None, amaximum = None, asoftRange = None, aenum = []\<rparr>"

definition scene :: world where
  "scene =
     \<lparr>plugs = [''ball.label'' \<mapsto> plainAttr ''string'' (PStr ''hello''),
               ''ball.mode'' \<mapsto> (plainAttr ''enum'' (PInt 2))\<lparr>aenum := ''low:mid:high''\<rparr>,
               ''ball.radius'' \<mapsto> plainAttr ''double'' (PFloat 0),
               ''ball.count'' \<mapsto> plainAttr ''long'' (PInt 0),
               ''ball.visible'' \<mapsto> plainAttr ''bool'' (PBool False)],
      callbacks = [], nextCallbackId = 0, evalDeferredCalls = 0, getAttrCalls = 0,
      setAttrLog = [], valueChangedEmits = 0\<rparr>"

definition no_kwargs :: kwargs where
  "no_kwargs = \<lparr>kw_value = None, kw_displayName = None, kw_increment = None, kw_enumStrings = None\<rparr>"

definition labelWidget :: binding where
  "labelWidget = (blank StringAttributeWidget)
     \<lparr>node := ''ball'', attribute := ''label'', plugString := ''ball.label'',
      attributeType := ''string'', attributeDefaults := [(''value'', PStr ''hello'')],
      u_value := PStr ''hello'', customIncrement := PFloat (1 / 100), lineEdit := PStr ''hello''\<rparr>"

definition modeWidget :: binding where
  "modeWidget = (blank EnumAttributeWidget)
     \<lparr>node := ''ball'', attribute := ''mode'', plugString := ''ball.mode'',
      attributeType := ''enum'',
      attributeDefaults := [(''value'', PInt 2),
         (''enumStrings'', PList [PStr ''low'', PStr ''mid'', PStr ''high''])],
      u_value := PInt 2, customIncrement := PFloat (1 / 100),
      enumValues := PList [PStr ''low'', PStr ''mid'', PStr ''high''],
      comboBoxItems := [PStr ''low'', PStr ''mid'', PStr ''high''], comboBoxIndex := PInt 2\<rparr>"

definition radiusWidget :: binding where
  "radiusWidget = (blank FloatNumericAttributeWidget)
     \<lparr>node := ''ball'', attribute := ''radius'', plugString := ''ball.radius'',
      attributeType := ''double'', attributeDefaults := K_FLOAT_ATTR_DEFAULTS,
      u_value := PFloat 0, customIncrement := PFloat (1 / 100), spinBox := PFloat 0,
      slider := PFloat 0\<rparr>"

definition countWidget :: binding where
  "countWidget = (blank IntegerNumericAttributeWidget)
     \<lparr>node := ''ball'', attribute := ''count'', plugString := ''ball.count'',
      attributeType := ''long'', attributeDefaults := K_INTEGER_ATTR_DEFAULTS,
      u_value := PInt 0, customIncrement := PFloat (1 / 100)\<rparr>"

definition visibleWidget :: binding where
  "visibleWidget = (blank BoolAttributeWidget)
     \<lparr>node := ''ball'', attribute := ''visible'', plugString := ''ball.visible'',
      attributeType := ''bool'', attributeDefaults := [(''value'', PBool False)],
      u_value := PBool False, customIncrement := PFloat (1 / 100)\<rparr>"

text \<open>A widget after \<^verbatim>\<open>connectToNode\<close>, and the scene holding its callback.\<close>

definition connected :: "binding \<Rightarrow> binding" where
  "connected b = b\<lparr>isConnected := True, nodeCallbacks := [0]\<rparr>"

definition hostScene :: world where
  "hostScene = scene\<lparr>callbacks := [0], nextCallbackId := 1\<rparr>"

text \<open>The connected integer widget after the user has typed 5 while the scene still holds 0.\<close>

definition countLive :: binding where
  "countLive = (connected countWidget)\<lparr>u_value := PInt 5, spinBox := PInt 5, slider := PInt 5\<rparr>"

text \<open>The scene after another tool has renamed the label.\<close>

definition retitledScene :: world where
  "retitledScene =
     hostScene\<lparr>plugs := (plugs hostScene)(''ball.label'' \<mapsto> plainAttr ''string'' (PStr ''world''))\<rparr>"

text \<open>The connected text widget after \<^verbatim>\<open>pushInData({'value': 'hello'})\<close>.\<close>

definition labelPushed :: binding where
  "labelPushed = (connected labelWidget)\<lparr>sceneAttributeData := [(''value'', PStr ''hello'')]\<rparr>"

text \<open>What \<^verbatim>\<open>stealMyData\<close> returns for the fresh text widget.\<close>

definition labelBundle :: pydict where
  "labelBundle =
     [(''node'', PStr ''ball''), (''attribute'', PStr ''label''), (''attributeType'', PStr ''string''),
      (''isConnected'', PBool False), (''plugString'', PStr ''ball.label''),
      (''value'', PStr ''hello'')]"

text \<open>
  The integer widget redirected to another plug, the bundle \<^verbatim>\<open>stealMyData\<close> returns for
  it, and a second integer widget showing 7.
\<close>

definition countRedirected :: binding where
  "countRedirected = countWidget\<lparr>sceneAttributeData := [(''overridePlug'', PStr ''ball.radius'')]\<rparr>"

definition countBundle :: pydict where
  "countBundle =
     [(''overridePlug'', PStr ''ball.radius''), (''node'', PStr ''ball''),
      (''attribute'', PStr ''count''), (''attributeType'', PStr ''long''),
      (''isConnected'', PBool False), (''plugString'', PStr ''ball.count''), (''value'', PInt 0)]"

definition countSeven :: binding where
  "countSeven = countWidget\<lparr>u_value := PInt 7, spinBox := PInt 7, slider := PInt 7\<rparr>"

section \<open>Unfolding the model\<close>

lemmas action_defs = ret_def raise_def bindE_def seqE_def tryExcept_def getB_def getW_def modifyB_def
  modifyW_def liftO_def cmds_getAttr_def cmds_setAttr_def emitValueChanged_def

lemmas update_defs = updateWidgetValues_def Base_updateWidgetValues_def String_updateWidgetValues_def
  Enum_updateWidgetValues_def FloatSimple_updateWidgetValues_def Float_updateWidgetValues_def
  IntegerSimple_updateWidgetValues_def Integer_updateWidgetValues_def Bool_updateWidgetValues_def
  FloatSimple_silentSpinBoxUpdate_def Float_silentSliderUpdate_def IntegerSimple_silentSpinBoxUpdate_def
  Integer_silentSliderUpdate_def checkBox_setChecked_def Bool_widgetUpdated_def Base_widgetUpdated_def

lemmas connect_defs = connectToNode_def connectToNode_register_def releaseCallbacks_def
  removeCallback_def addNodeDirtyPlugCallback_def effectivePlug_def onGetAttr_def set_value_def
  onSetAttr_def getAttr_def setAttr_def

lemmas init_defs = construct_def widget_init_def Base_init_def Base_init_fields_def getAttrType_def
  getAttributeInformation_def String_getAttributeInformation_def Enum_getAttributeInformation_def
  numeric_getAttributeInformation_def FloatSimple_getAttributeInformation_def
  IntegerSimple_getAttributeInformation_def Bool_getAttributeInformation_def
  buildWidget_def String_buildWidget_def Enum_buildWidget_def FloatSimple_buildWidget_def
  Float_buildWidget_def IntegerSimple_buildWidget_def Integer_buildWidget_def Bool_buildWidget_def
  setupSocketConnections_def Float_setupSocketConnections_def Bool_setupSocketConnections_def
  Float_spinBox_setValue_def Float_spinBoxUpdated_def FloatSimple_spinBoxUpdated_def
  widgetUpdated_def FloatSimple_widgetUpdated_def kwargs_get_def dict_index_def getAttr_def
  K_FLOAT_ATTR_DEFAULTS_def K_INTEGER_ATTR_DEFAULTS_def K_FLOAT_WIDGET_FACTOR_def
  K_FLOAT_WIDGET_STEP_INCREMENT_def onSetAttr_def py_mul_float_def

lemmas example_defs = plainAttr_def scene_def no_kwargs_def labelWidget_def modeWidget_def
  radiusWidget_def countWidget_def visibleWidget_def connected_def hostScene_def blank_def
  countLive_def retitledScene_def labelPushed_def labelBundle_def countRedirected_def
  countBundle_def countSeven_def

section \<open>The example widgets are what the code builds\<close>

lemma construct_label:
  "construct StringAttributeWidget (Some ''ball'') (Some ''label'') (Some ''string'') no_kwargs scene
     = (Return labelWidget, scene\<lparr>getAttrCalls := 1\<rparr>)"
  by (simp add: init_defs action_defs update_defs example_defs)

lemma construct_mode:
  "construct EnumAttributeWidget (Some ''ball'') (Some ''mode'') (Some ''enum'') no_kwargs scene
     = (Return modeWidget, scene\<lparr>getAttrCalls := 1\<rparr>)"
  by (simp add: init_defs action_defs update_defs example_defs)

lemma construct_radius:
  "construct FloatNumericAttributeWidget (Some ''ball'') (Some ''radius'') (Some ''double'') no_kwargs scene
     = (Return radiusWidget, scene\<lparr>getAttrCalls := 1, valueChangedEmits := 2\<rparr>)"
  by (simp add: init_defs action_defs update_defs example_defs)

lemma construct_count:
  "construct IntegerNumericAttributeWidget (Some ''ball'') (Some ''count'') (Some ''long'') no_kwargs scene
     = (Return countWidget, scene\<lparr>getAttrCalls := 1\<rparr>)"
  by (simp add: init_defs action_defs update_defs example_defs)

lemma construct_visible:
  "construct BoolAttributeWidget (Some ''ball'') (Some ''visible'') (Some ''bool'') no_kwargs scene
     = (Return visibleWidget, scene\<lparr>getAttrCalls := 1\<rparr>)"
  by (simp add: init_defs action_defs update_defs example_defs)

text \<open>Connecting without pulling writes the cached value through and registers one callback.\<close>

lemma connect_label:
  "connectToNode False (labelWidget, scene\<lparr>getAttrCalls := 1\<rparr>) =
     (Return (), connected labelWidget,
      hostScene\<lparr>getAttrCalls := 2,
                setAttrLog := [(PStr ''ball.label'', PStr ''hello'', Some ''string'')]\<rparr>)"
  by (simp add: connect_defs action_defs update_defs example_defs fun_upd_idem)

lemma push_label:
  "pushInData [(''value'', PStr ''hello'')] (connected labelWidget, hostScene)
     = (Return (), labelPushed, hostScene\<lparr>valueChangedEmits := 1\<rparr>)"
  by (simp add: pushInData_def getAllProperties_def localStep_def parentStep_def setattr_def
        ALWAYS_SKIP_PROPERTIES_def PUSH_SKIP_PROPERTIES_def GARBAGE_TEST_def dict_get_def
        K_OVR_PLUG_OVERRIDE_DATA_KEYS_def connect_defs action_defs update_defs example_defs)

section \<open>Frame lemmas\<close>

lemma del_each_skip: "del_each cs s = (Return (), s)"
  by (induction cs) (simp_all add: action_defs)

lemma onGetAttr_unconnected:
  "\<not> isConnected b \<Longrightarrow> onGetAttr (b, w) = (Return PNone, b, w)"
  by (simp add: onGetAttr_def action_defs)

lemma onSetAttr_frame:
  assumes "onSetAttr force (b, w) = (r, b2, w2)"
  shows "b2 = b"
  using assms
  by (auto simp: onSetAttr_def action_defs getAttr_def setAttr_def Let_def
      split: if_splits option.splits pyval.splits prod.splits outcome.splits)

text \<open>
  A refresh of the controls leaves the connection, the class, the override bundle, the
  callbacks, the labels and the queue alone; the cached value changes only in the boolean
  widget, whose check box writes its state back.
\<close>

lemma updateWidgetValues_frame:
  assumes "updateWidgetValues (b, w) = (r, b2, w2)"
  shows "isConnected b2 = isConnected b \<and> cls b2 = cls b \<and> sceneAttributeData b2 = sceneAttributeData b
       \<and> nodeCallbacks b2 = nodeCallbacks b \<and> enumValues b2 = enumValues b
       \<and> deferredUpdateRequest b2 = deferredUpdateRequest b
       \<and> (u_value b2 = u_value b \<or>
            (cls b = BoolAttributeWidget \<and> u_value b2 = PBool (py_truthy (u_value b))))"
proof (cases "cls b = BoolAttributeWidget")
  case False
  with assms show ?thesis
    by (cases "cls b")
       (auto simp: update_defs action_defs py_div_float_def py_mul_float_def
          split: option.splits if_splits)
next
  case True
  show ?thesis
  proof (cases "checkBox b = py_truthy (u_value b)")
    case same: True
    with True assms show ?thesis by (auto simp: update_defs action_defs)
  next
    case diff: False
    let ?b1 = "b\<lparr>checkBox := py_truthy (u_value b), u_value := PBool (py_truthy (u_value b))\<rparr>"
    obtain r1 b3 w3 where o: "onSetAttr False (?b1, w) = (r1, b3, w3)"
      by (cases "onSetAttr False (?b1, w)") auto
    from onSetAttr_frame[OF o] have b3: "b3 = ?b1" .
    from True diff assms o b3 show ?thesis
      by (cases r1) (auto simp: update_defs action_defs)
  qed
qed

lemma updateWidgetValues_reads:
  assumes "cls b \<noteq> BoolAttributeWidget"
  shows "getAttrCalls (snd (snd (updateWidgetValues (b, w)))) = getAttrCalls w"
  using assms
  by (cases "cls b")
     (auto simp: update_defs action_defs py_div_float_def py_mul_float_def split: option.splits)

lemma onGetAttr_reads:
  assumes "isConnected b" "effectivePlug b = Some p" "cls b \<noteq> BoolAttributeWidget"
  shows "getAttrCalls (snd (snd (onGetAttr (b, w)))) = getAttrCalls w + 1"
proof -
  obtain r w1 where g: "getAttr p w = (r, w1)" by (cases "getAttr p w")
  then have c: "getAttrCalls w1 = getAttrCalls w + 1"
    by (auto simp: getAttr_def Let_def split: pyval.splits option.splits)
  show ?thesis
  proof (cases r)
    case (Raise e)
    with assms g c show ?thesis by (simp add: onGetAttr_def action_defs)
  next
    case (Return v)
    show ?thesis
    proof (cases "py_truthy v")
      case False
      with assms g c Return show ?thesis by (simp add: onGetAttr_def action_defs)
    next
      case True
      have "cls (b\<lparr>u_value := v\<rparr>) \<noteq> BoolAttributeWidget" using assms by simp
      from updateWidgetValues_reads[OF this, of w1]
      show ?thesis using assms g c Return True
        by (auto simp: onGetAttr_def action_defs split: prod.splits outcome.splits)
    qed
  qed
qed

lemma onDirtyPlug_pow:
  "deferredUpdateRequest b = [] \<Longrightarrow>
   (onDirtyPlug ^^ Suc n) (b, w) = (b\<lparr>deferredUpdateRequest := replicate (Suc n) True\<rparr>, evalDeferred w)"
proof (induction n)
  case 0
  then show ?case by (simp add: onDirtyPlug_def)
next
  case (Suc n)
  then show ?case by (simp add: onDirtyPlug_def replicate_append_same)
qed

section \<open>Snapshot and restore, step by step\<close>

lemma getAllProperties_eq:
  "getAllProperties c =
     (if c = EnumAttributeWidget then [''enumValues''] else []) @
     [''node'', ''attribute'', ''attributeType'', ''isConnected'', ''plugString'', ''value'']"
  by (cases c) (simp_all add: getAllProperties_def localStep_def parentStep_def ALWAYS_SKIP_PROPERTIES_def)

text \<open>\<^verbatim>\<open>stealMyData\<close> always returns: the override bundle with every property written over it.\<close>

lemma stealMyData_eq:
  "stealMyData b = Return
     (AList.update ''value'' (u_value b) (AList.update ''plugString'' (PStr (plugString b))
       (AList.update ''isConnected'' (PBool (isConnected b))
         (AList.update ''attributeType'' (PStr (attributeType b))
           (AList.update ''attribute'' (PStr (attribute b))
             (AList.update ''node'' (PStr (node b))
               (if cls b = EnumAttributeWidget
                then AList.update ''enumValues'' (enumValues b) (sceneAttributeData b)
                else sceneAttributeData b)))))))"
  by (simp add: stealMyData_def getAllProperties_eq getattr_def get_value_def get_enumValues_def)

lemma stealMyData_facts:
  assumes "stealMyData b = Return d"
  shows "d \<noteq> []" and "map_of d ''value'' = Some (u_value b)"
    and "cls b = EnumAttributeWidget \<Longrightarrow> map_of d ''enumValues'' = Some (enumValues b)"
    and "map_of d K_OVR_PLUG_OVERRIDE_DATA_KEYS = map_of (sceneAttributeData b) K_OVR_PLUG_OVERRIDE_DATA_KEYS"
  using assms unfolding stealMyData_eq
  by (auto simp: update_conv' K_OVR_PLUG_OVERRIDE_DATA_KEYS_def)

lemma set_value_unconnected:
  assumes "\<not> isConnected b"
  shows "set_value v (b, w) = updateWidgetValues (b\<lparr>u_value := v\<rparr>, w)"
  using assms by (simp add: set_value_def onSetAttr_def action_defs)

lemma set_enumValues_unconnected:
  assumes "\<not> isConnected b" and "set_enumValues (PList xs) (b, w) = (r, b3, w3)"
  shows "r = Return () \<and> \<not> isConnected b3 \<and> cls b3 = cls b \<and> sceneAttributeData b3 = sceneAttributeData b
       \<and> (enumValues b3 = PList xs \<or> py_eq (PList xs) (enumValues b3))"
  using assms
  by (auto simp: set_enumValues_def comboBox_setCurrentIndex_def Enum_widgetUpdated_def
        Base_widgetUpdated_def onSetAttr_def get_value_def action_defs split: if_splits)

lemma pushLoop_base_props:
  assumes "\<not> isConnected b" and "map_of d ''value'' = Some v" and "v \<noteq> PStr GARBAGE_TEST"
    and "pushLoop d [''node'', ''attribute'', ''attributeType'', ''isConnected'', ''plugString'', ''value''] (b, w)
           = (r, b', w')"
  shows "sceneAttributeData b' = sceneAttributeData b \<and> enumValues b' = enumValues b
       \<and> (u_value b' = v \<or> (cls b = BoolAttributeWidget \<and> u_value b' = PBool (py_truthy v)))"
proof -
  obtain r2 b2 w2 where u: "updateWidgetValues (b\<lparr>u_value := v\<rparr>, w) = (r2, b2, w2)"
    by (cases "updateWidgetValues (b\<lparr>u_value := v\<rparr>, w)") auto
  note f = updateWidgetValues_frame[OF u]
  have "b' = b2"
    using assms u
    by (cases r2)
       (auto simp: PUSH_SKIP_PROPERTIES_def dict_get_def setattr_def set_value_unconnected action_defs)
  with f show ?thesis by auto
qed

lemma steal_push_values:
  assumes "cls b2 = cls b1" and "\<not> isConnected b2"
    and "u_value b1 \<noteq> PStr GARBAGE_TEST"
    and "cls b1 = EnumAttributeWidget \<longrightarrow> (\<exists>xs. enumValues b1 = PList xs)"
    and "stealMyData b1 = Return d"
    and "pushInData d (b2, w) = (r, b2', w')"
  shows "(u_value b2' = u_value b1 \<or>
            (cls b1 = BoolAttributeWidget \<and> u_value b2' = PBool (py_truthy (u_value b1))))
       \<and> (cls b1 = EnumAttributeWidget \<longrightarrow>
            enumValues b2' = enumValues b1 \<or> py_eq (enumValues b1) (enumValues b2'))
       \<and> sceneAttributeData b2' = d \<and> d \<noteq> []
       \<and> dict_get (sceneAttributeData b2') K_OVR_PLUG_OVERRIDE_DATA_KEYS PNone
            = dict_get (sceneAttributeData b1) K_OVR_PLUG_OVERRIDE_DATA_KEYS PNone"
proof -
  note sf = stealMyData_facts[OF assms(5)]
  let ?b = "b2\<lparr>sceneAttributeData := d\<rparr>"
  let ?base = "[''node'', ''attribute'', ''attributeType'', ''isConnected'', ''plugString'', ''value'']"
  have nc: "\<not> isConnected ?b" using assms(2) by simp
  have ovr: "dict_get d K_OVR_PLUG_OVERRIDE_DATA_KEYS PNone
            = dict_get (sceneAttributeData b1) K_OVR_PLUG_OVERRIDE_DATA_KEYS PNone"
    using sf(4) by (simp add: dict_get_def)
  show ?thesis
  proof (cases "cls b1 = EnumAttributeWidget")
    case False
    then have "pushLoop d ?base (?b, w) = (r, b2', w')"
      using assms(1,6) sf(1) by (simp add: pushInData_def getAllProperties_eq action_defs)
    from pushLoop_base_props[OF nc sf(2) assms(3) this] False assms(1) sf(1) ovr
    show ?thesis by auto
  next
    case True
    then obtain xs where xs: "enumValues b1 = PList xs" using assms(4) by auto
    obtain r3 b3 w3 where e: "set_enumValues (PList xs) (?b, w) = (r3, b3, w3)"
      by (cases "set_enumValues (PList xs) (?b, w)") auto
    note ef = set_enumValues_unconnected[OF nc e]
    have "pushLoop d ?base (b3, w3) = (r, b2', w')"
      using assms(1,6) sf(1) sf(3)[OF True] True xs e ef
      by (simp add: pushInData_def getAllProperties_eq action_defs PUSH_SKIP_PROPERTIES_def
            dict_get_def setattr_def)
    from pushLoop_base_props[OF _ sf(2) assms(3) this] ef True xs sf(1) ovr assms(1)
    show ?thesis by auto
  qed
qed

lemma push_absent_keys:
  assumes "data \<noteq> []" and "map_of data ''value'' = None" and "map_of data ''enumValues'' = None"
  shows "pushInData data (b, w) = (Return (), b\<lparr>sceneAttributeData := data\<rparr>, w)"
  using assms
  by (simp add: pushInData_def getAllProperties_eq action_defs PUSH_SKIP_PROPERTIES_def dict_get_def)

section \<open>Construction\<close>

text \<open>
  Claim C5. For every widget class, construction raises \<^verbatim>\<open>TypeError\<close> and yields no
  widget when the node, the attribute or the attribute type is \<^verbatim>\<open>None\<close> or empty, and
  also when all three are given and the scene reports a type for the plug that differs
  from the declared one. The scene is left as it was.
\<close>

theorem construct_rejects:
  "((node_arg = None \<or> node_arg = Some [] \<or> attribute_arg = None \<or> attribute_arg = Some []
       \<or> attributeType_arg = None \<or> attributeType_arg = Some [])
      \<longrightarrow> construct c node_arg attribute_arg attributeType_arg kw w = (Raise TypeError, w))
   \<and> (n \<noteq> [] \<and> a \<noteq> [] \<and> t \<noteq> [] \<and> plugs w (n @ ''.'' @ a) = Some pl \<and> atype pl \<noteq> t
      \<longrightarrow> construct c (Some n) (Some a) (Some t) kw w = (Raise TypeError, w))"
  by (auto simp: construct_def widget_init_def Base_init_def action_defs blank_def getAttrType_def
      split: option.splits)

theorem construct_rejects_witness:
  "construct BoolAttributeWidget (Some ''ball'') None (Some ''bool'') no_kwargs scene
     = (Raise TypeError, scene)
   \<and> construct BoolAttributeWidget (Some ''ball'') (Some ''label'') (Some ''bool'') no_kwargs scene
     = (Raise TypeError, scene)"
proof -
  have h: "plugs scene (''ball'' @ ''.'' @ ''label'') = Some (plainAttr ''string'' (PStr ''hello''))"
    by (simp add: scene_def)
  have t: "atype (plainAttr ''string'' (PStr ''hello'')) \<noteq> ''bool''"
    by (simp add: plainAttr_def)
  show ?thesis
    using construct_rejects[where node_arg = "Some ''ball''" and attribute_arg = None
        and attributeType_arg = "Some ''bool''" and c = BoolAttributeWidget and kw = no_kwargs
        and w = scene and n = "''ball''" and a = "''label''" and t = "''bool''"
        and pl = "plainAttr ''string'' (PStr ''hello'')"] h t
    by simp
qed

section \<open>Reading through\<close>

text \<open>
  Claim C9. On a connected binding, when the read of the effective plug yields a falsy
  value (zero, the empty string, \<^verbatim>\<open>False\<close>), \<^verbatim>\<open>_onGetAttr\<close> returns nothing and
  updates nothing: the binding, with its cached value and all its controls, is as
  before, no signal is emitted, and the scene only counts the read.
\<close>

theorem falsy_read_is_no_update:
  assumes "isConnected b" and "effectivePlug b = Some (PStr s)" and "plugs w s = Some a"
    and "\<not> py_truthy (aval a)"
  shows "onGetAttr (b, w) = (Return PNone, b, w\<lparr>getAttrCalls := getAttrCalls w + 1\<rparr>)"
  using assms by (simp add: onGetAttr_def action_defs getAttr_def)

theorem falsy_read_is_no_update_witness:
  "onGetAttr (countLive, hostScene) = (Return PNone, countLive, hostScene\<lparr>getAttrCalls := 1\<rparr>)
   \<and> get_value countLive = PInt 5"
proof -
  have h1: "isConnected countLive" by (simp add: example_defs)
  have h2: "effectivePlug countLive = Some (PStr ''ball.count'')"
    by (simp add: effectivePlug_def example_defs)
  have h3: "plugs hostScene ''ball.count'' = Some (plainAttr ''long'' (PInt 0))"
    by (simp add: hostScene_def scene_def)
  have h4: "\<not> py_truthy (aval (plainAttr ''long'' (PInt 0)))" by (simp add: plainAttr_def)
  show ?thesis
    using falsy_read_is_no_update[OF h1 h2 h3 h4]
    by (simp add: get_value_def example_defs)
qed

section \<open>Connecting\<close>

text \<open>
  Claim C1. \<^verbatim>\<open>connectToNode(pull=True)\<close> calls \<^verbatim>\<open>_onGetAttr\<close> while the widget is still
  unconnected, so nothing is read and \<^verbatim>\<open>None\<close> comes back; the setter then stores that
  \<^verbatim>\<open>None\<close>. On the fresh enumeration widget the connection succeeds, the cached value
  is \<^verbatim>\<open>None\<close>, no \<^verbatim>\<open>getAttr\<close> was made, and the scene holds 2 for the plug.
\<close>

theorem pull_connect_stores_None:
  "connectToNode True (modeWidget, scene) =
     (Return (), modeWidget\<lparr>u_value := PNone, nodeCallbacks := [0], isConnected := True\<rparr>,
      scene\<lparr>callbacks := [0], nextCallbackId := 1, valueChangedEmits := 1\<rparr>)
   \<and> getAttr (PStr (plugString modeWidget)) scene = (Return (PInt 2), scene\<lparr>getAttrCalls := 1\<rparr>)"
  by (simp add: connect_defs action_defs update_defs example_defs)

text \<open>
  Claim C3. \<^verbatim>\<open>connectToNode\<close> empties \<^verbatim>\<open>_nodeCallbacks\<close> and
  \<^verbatim>\<open>_deferredUpdateRequest\<close> before it looks at the connected flag. On a connected
  binding it therefore returns with both lists empty and the old callbacks removed from
  the host, while the flag stays set.
\<close>

theorem reconnect_drops_tokens_and_queue:
  assumes "isConnected b"
  shows "connectToNode pull (b, w) =
     (Return (), b\<lparr>nodeCallbacks := [], deferredUpdateRequest := []\<rparr>,
      releaseCallbacks (nodeCallbacks b) w)"
  using assms by (simp add: connectToNode_def action_defs)

theorem reconnect_drops_tokens_and_queue_witness:
  "nodeCallbacks (countLive\<lparr>deferredUpdateRequest := [True]\<rparr>) = [0]
   \<and> callbacks hostScene = [0]
   \<and> connectToNode False (countLive\<lparr>deferredUpdateRequest := [True]\<rparr>, hostScene)
      = (Return (), countLive\<lparr>nodeCallbacks := []\<rparr>, hostScene\<lparr>callbacks := []\<rparr>)"
proof -
  have h: "isConnected (countLive\<lparr>deferredUpdateRequest := [True]\<rparr>)" by (simp add: example_defs)
  show ?thesis
    using reconnect_drops_tokens_and_queue[OF h, of False hostScene]
    by (simp add: releaseCallbacks_def removeCallback_def example_defs)
qed

section \<open>Disconnecting\<close>

text \<open>
  Claim C2, as the code has it. For a connected binding whose effective plug is in the
  scene, when \<^verbatim>\<open>disConnectFromNode\<close> returns, the connected flag is cleared; the cached
  value is the scene's value at that moment when that value is truthy (in the boolean
  widget the check box may have written it back as \<^verbatim>\<open>True\<close>), and is the old cached
  value when the scene's value is falsy.
\<close>

theorem disconnect_refreshes_truthy:
  assumes "isConnected b" and "effectivePlug b = Some (PStr s)" and "plugs w s = Some a"
    and "disConnectFromNode (b, w) = (Return (), b', w')"
  shows "\<not> isConnected b' \<and>
         (if py_truthy (aval a)
          then get_value b' = aval a \<or> (cls b = BoolAttributeWidget \<and> get_value b' = PBool True)
          else get_value b' = get_value b)"
proof (cases "py_truthy (aval a)")
  case False
  with assms show ?thesis
    by (auto simp: disConnectFromNode_def onGetAttr_def action_defs getAttr_def del_each_skip
          get_value_def)
next
  case True
  let ?w1 = "w\<lparr>getAttrCalls := getAttrCalls w + 1\<rparr>"
  let ?b1 = "b\<lparr>u_value := aval a\<rparr>"
  obtain r2 b2 w2 where u: "updateWidgetValues (?b1, ?w1) = (r2, b2, w2)"
    by (cases "updateWidgetValues (?b1, ?w1)") auto
  note f = updateWidgetValues_frame[OF u]
  from assms True u have "r2 = Return ()" and b': "b' = b2\<lparr>isConnected := False\<rparr>"
    by (cases r2; auto simp: disConnectFromNode_def onGetAttr_def action_defs getAttr_def del_each_skip)+
  with f True show ?thesis by (auto simp: get_value_def)
qed

theorem disconnect_refreshes_truthy_witness:
  "\<not> isConnected (fst (snd (disConnectFromNode (connected labelWidget, retitledScene))))
   \<and> get_value (fst (snd (disConnectFromNode (connected labelWidget, retitledScene)))) = PStr ''world''"
proof -
  have h1: "isConnected (connected labelWidget)" by (simp add: example_defs)
  have h2: "effectivePlug (connected labelWidget) = Some (PStr ''ball.label'')"
    by (simp add: effectivePlug_def example_defs)
  have h3: "plugs retitledScene ''ball.label'' = Some (plainAttr ''string'' (PStr ''world''))"
    by (simp add: retitledScene_def)
  have h4: "disConnectFromNode (connected labelWidget, retitledScene)
      = (Return (),
         (connected labelWidget)\<lparr>u_value := PStr ''world'', lineEdit := PStr ''world'',
                                   isConnected := False\<rparr>,
         retitledScene\<lparr>getAttrCalls := 1, valueChangedEmits := 1\<rparr>)"
    by (simp add: disConnectFromNode_def connect_defs action_defs update_defs example_defs
          del_each_skip)
  have c: "cls (connected labelWidget) \<noteq> BoolAttributeWidget" by (simp add: example_defs)
  show ?thesis using disconnect_refreshes_truthy[OF h1 h2 h3 h4] c by (simp add: h4 plainAttr_def)
qed

text \<open>
  The claim as stated fails on the connected integer widget that caches 5 while the
  scene holds 0: after \<^verbatim>\<open>disConnectFromNode\<close> the cached value is still 5, the widget
  still holds its callback wrapper, and the host still has the callback registered.
\<close>

theorem disconnect_keeps_stale_value_and_token:
  "isConnected countLive
   \<and> disConnectFromNode (countLive, hostScene)
       = (Return (), countLive\<lparr>isConnected := False\<rparr>, hostScene\<lparr>getAttrCalls := 1\<rparr>)
   \<and> get_value (countLive\<lparr>isConnected := False\<rparr>) = PInt 5
   \<and> getAttr (PStr ''ball.count'') hostScene = (Return (PInt 0), hostScene\<lparr>getAttrCalls := 1\<rparr>)
   \<and> nodeCallbacks (countLive\<lparr>isConnected := False\<rparr>) = [0]
   \<and> callbacks (hostScene\<lparr>getAttrCalls := 1\<rparr>) = [0]"
  by (simp add: disConnectFromNode_def connect_defs action_defs update_defs example_defs
        get_value_def del_each_skip)

section \<open>The deferred refresh\<close>

text \<open>
  Claim C4, as the code has it. For every N of at least 1, N dirty notifications on a
  binding with an empty queue leave N markers and schedule one deferred call. When that
  call runs on a connected binding whose override bundle is empty or names a plug, and
  whose class is not the boolean one, exactly one \<^verbatim>\<open>getAttr\<close> is made; and whenever the
  call returns, the queue is empty.
\<close>

theorem deferred_refresh_coalesces:
  assumes "1 \<le> N" and "deferredUpdateRequest b = []"
  shows "(onDirtyPlug ^^ N) (b, w) = (b\<lparr>deferredUpdateRequest := replicate N True\<rparr>, evalDeferred w)
       \<and> (isConnected b \<and> effectivePlug b \<noteq> None \<and> cls b \<noteq> BoolAttributeWidget \<longrightarrow>
            getAttrCalls (snd (snd (processDeferredUpdateRequest ((onDirtyPlug ^^ N) (b, w)))))
              = getAttrCalls w + 1)
       \<and> (fst (processDeferredUpdateRequest ((onDirtyPlug ^^ N) (b, w))) = Return () \<longrightarrow>
            deferredUpdateRequest (fst (snd (processDeferredUpdateRequest ((onDirtyPlug ^^ N) (b, w))))) = [])"
proof -
  obtain n where N: "N = Suc n" using assms(1) by (cases N) auto
  have d: "(onDirtyPlug ^^ N) (b, w) = (b\<lparr>deferredUpdateRequest := replicate N True\<rparr>, evalDeferred w)"
    unfolding N using onDirtyPlug_pow[OF assms(2)] by blast
  let ?b = "b\<lparr>deferredUpdateRequest := replicate N True\<rparr>"
  have ne: "deferredUpdateRequest ?b \<noteq> []" using N by simp
  have r: "isConnected b \<and> effectivePlug b \<noteq> None \<and> cls b \<noteq> BoolAttributeWidget \<Longrightarrow>
      getAttrCalls (snd (snd (processDeferredUpdateRequest (?b, evalDeferred w)))) = getAttrCalls w + 1"
  proof -
    assume a: "isConnected b \<and> effectivePlug b \<noteq> None \<and> cls b \<noteq> BoolAttributeWidget"
    have "effectivePlug ?b = effectivePlug b" by (simp add: effectivePlug_def)
    with a obtain p where p: "effectivePlug ?b = Some p" by (cases "effectivePlug b") auto
    have "getAttrCalls (snd (snd (onGetAttr (?b, evalDeferred w)))) = getAttrCalls (evalDeferred w) + 1"
      using onGetAttr_reads[of ?b p "evalDeferred w"] a p by simp
    then show ?thesis using ne
      by (auto simp: processDeferredUpdateRequest_def action_defs evalDeferred_def
          split: prod.splits outcome.splits)
  qed
  have c: "fst (processDeferredUpdateRequest (?b, evalDeferred w)) = Return () \<Longrightarrow>
      deferredUpdateRequest (fst (snd (processDeferredUpdateRequest (?b, evalDeferred w)))) = []"
    by (auto simp: processDeferredUpdateRequest_def action_defs split: prod.splits outcome.splits if_splits)
  show ?thesis using d r c by simp
qed

theorem deferred_refresh_coalesces_witness:
  "(onDirtyPlug ^^ 3) (connected labelWidget, retitledScene)
     = ((connected labelWidget)\<lparr>deferredUpdateRequest := [True, True, True]\<rparr>,
        retitledScene\<lparr>evalDeferredCalls := 1\<rparr>)
   \<and> getAttrCalls (snd (snd (processDeferredUpdateRequest
        ((onDirtyPlug ^^ 3) (connected labelWidget, retitledScene))))) = 1
   \<and> deferredUpdateRequest (fst (snd (processDeferredUpdateRequest
        ((onDirtyPlug ^^ 3) (connected labelWidget, retitledScene))))) = []"
proof -
  have h1: "(1::nat) \<le> 3" by simp
  have h2: "deferredUpdateRequest (connected labelWidget) = []" by (simp add: example_defs)
  have h3: "isConnected (connected labelWidget) \<and> effectivePlug (connected labelWidget) \<noteq> None
      \<and> cls (connected labelWidget) \<noteq> BoolAttributeWidget"
    by (simp add: effectivePlug_def example_defs)
  have h4: "fst (processDeferredUpdateRequest ((onDirtyPlug ^^ 3) (connected labelWidget, retitledScene)))
      = Return ()"
    by (simp add: numeral_3_eq_3 onDirtyPlug_def evalDeferred_def processDeferredUpdateRequest_def
          connect_defs action_defs update_defs example_defs)
  have g: "getAttrCalls retitledScene = 0" by (simp add: example_defs)
  have e: "replicate 3 True = [True, True, True]" by (simp add: numeral_3_eq_3)
  note t = deferred_refresh_coalesces[OF h1 h2, of retitledScene]
  from t have a: "(onDirtyPlug ^^ 3) (connected labelWidget, retitledScene)
     = ((connected labelWidget)\<lparr>deferredUpdateRequest := [True, True, True]\<rparr>,
        retitledScene\<lparr>evalDeferredCalls := 1\<rparr>)"
    unfolding e by (simp add: evalDeferred_def example_defs)
  from t h3 have "getAttrCalls (snd (snd (processDeferredUpdateRequest
        ((onDirtyPlug ^^ 3) (connected labelWidget, retitledScene))))) = getAttrCalls retitledScene + 1"
    by blast
  then have b: "getAttrCalls (snd (snd (processDeferredUpdateRequest
        ((onDirtyPlug ^^ 3) (connected labelWidget, retitledScene))))) = 1"
    unfolding g by simp
  from t h4 have c: "deferredUpdateRequest (fst (snd (processDeferredUpdateRequest
        ((onDirtyPlug ^^ 3) (connected labelWidget, retitledScene))))) = []"
    by blast
  from a b c show ?thesis by blast
qed

text \<open>
  The claim as stated fails on a connected binding whose override bundle is not empty
  and has no \<^verbatim>\<open>overridePlug\<close> entry, the state \<^verbatim>\<open>pushInData({'value': 'hello'})\<close>
  leaves: three notifications schedule one call, and that call reads nothing.
\<close>

theorem deferred_refresh_without_read:
  "isConnected labelPushed \<and> deferredUpdateRequest labelPushed = []
   \<and> (onDirtyPlug ^^ 3) (labelPushed, hostScene)
        = (labelPushed\<lparr>deferredUpdateRequest := [True, True, True]\<rparr>, hostScene\<lparr>evalDeferredCalls := 1\<rparr>)
   \<and> processDeferredUpdateRequest ((onDirtyPlug ^^ 3) (labelPushed, hostScene))
        = (Return (), labelPushed, hostScene\<lparr>evalDeferredCalls := 1\<rparr>)
   \<and> getAttrCalls (hostScene\<lparr>evalDeferredCalls := 1\<rparr>) = getAttrCalls hostScene"
  by (simp add: numeral_3_eq_3 onDirtyPlug_def evalDeferred_def processDeferredUpdateRequest_def
        connect_defs action_defs example_defs dict_get_def K_OVR_PLUG_OVERRIDE_DATA_KEYS_def)

text \<open>
  In the boolean widget the refresh after the read checks the box with its handler
  attached, and the handler writes through: when the scene turns the plug to
  \<^verbatim>\<open>True\<close>, the deferred call shows the box checked and caches \<^verbatim>\<open>True\<close>, with
  two \<^verbatim>\<open>getAttr\<close> calls, one \<^verbatim>\<open>setAttr\<close> and two emissions.
\<close>

lemma bool_refresh_reads_twice:
  "processDeferredUpdateRequest
     ((connected visibleWidget)\<lparr>deferredUpdateRequest := [True]\<rparr>,
      hostScene\<lparr>plugs := (plugs hostScene)(''ball.visible'' \<mapsto> plainAttr ''bool'' (PBool True))\<rparr>)
   = (Return (), (connected visibleWidget)\<lparr>u_value := PBool True, checkBox := True\<rparr>,
      hostScene\<lparr>plugs := (plugs hostScene)(''ball.visible'' \<mapsto> plainAttr ''bool'' (PBool True)),
                getAttrCalls := 2, setAttrLog := [(PStr ''ball.visible'', PBool True, None)],
                valueChangedEmits := 2\<rparr>)"
  by (simp add: processDeferredUpdateRequest_def connect_defs action_defs update_defs example_defs)

section \<open>Refreshing the controls\<close>

text \<open>
  Claim C6. The refresh of the enumeration widget does not touch its combo box: it only
  emits the signal. Assigning 0 to the fresh enumeration widget, whose combo box shows
  index 2, leaves the box at index 2 with 0 cached.
\<close>

theorem enum_refresh_leaves_comboBox:
  assumes "cls b = EnumAttributeWidget"
  shows "updateWidgetValues (b, w) = (Return (), b, w\<lparr>valueChangedEmits := valueChangedEmits w + 1\<rparr>)"
  using assms by (simp add: update_defs action_defs)

theorem enum_refresh_leaves_comboBox_witness:
  "set_value (PInt 0) (modeWidget, scene)
     = (Return (), modeWidget\<lparr>u_value := PInt 0\<rparr>, scene\<lparr>valueChangedEmits := 1\<rparr>)
   \<and> comboBoxIndex (modeWidget\<lparr>u_value := PInt 0\<rparr>) = PInt 2
   \<and> get_value (modeWidget\<lparr>u_value := PInt 0\<rparr>) = PInt 0"
proof -
  have h: "cls (modeWidget\<lparr>u_value := PInt 0\<rparr>) = EnumAttributeWidget" by (simp add: example_defs)
  have n: "\<not> isConnected modeWidget" by (simp add: example_defs)
  show ?thesis
    using enum_refresh_leaves_comboBox[OF h, of scene] set_value_unconnected[OF n, of "PInt 0" scene]
    by (simp add: get_value_def example_defs)
qed

text \<open>
  Claim C8. The refresh of the two-control float widget multiplies the value by the
  factor and hands the product to \<^verbatim>\<open>_silentSliderUpdate\<close>, which multiplies by the
  factor again. Assigning 2.5 to the fresh widget puts the slider at 25000, not at 250.
\<close>

theorem float_refresh_scales_twice:
  "set_value (PFloat (5 / 2)) (radiusWidget, scene)
     = (Return (),
        radiusWidget\<lparr>u_value := PFloat (5 / 2), spinBox := PFloat (5 / 2), slider := PFloat 25000\<rparr>,
        scene\<lparr>valueChangedEmits := 1\<rparr>)"
  by (simp add: connect_defs action_defs update_defs example_defs py_div_float_def py_mul_float_def
        K_FLOAT_WIDGET_FACTOR_def)

text \<open>
  The slider handler itself divides by the factor once, and the spin-box handler
  multiplies by it once: a slider move to 250 on the connected widget caches 2.5, shows
  2.5 in the spin box and writes 2.5 to the plug in one \<^verbatim>\<open>setAttr\<close>; typing 2.5 into
  the spin box puts the slider at 250.
\<close>

lemma slider_move_250:
  "Float_sliderUpdated (PInt 250) (connected radiusWidget, hostScene)
     = (Return (), (connected radiusWidget)\<lparr>u_value := PFloat (5 / 2), spinBox := PFloat (5 / 2)\<rparr>,
        hostScene\<lparr>plugs := (plugs hostScene)(''ball.radius'' \<mapsto> plainAttr ''double'' (PFloat (5 / 2))),
                  getAttrCalls := 1, setAttrLog := [(PStr ''ball.radius'', PFloat (5 / 2), None)],
                  valueChangedEmits := 1\<rparr>)"
  by (simp add: Float_sliderUpdated_def widgetUpdated_def FloatSimple_widgetUpdated_def
        connect_defs action_defs update_defs example_defs py_div_float_def py_mul_float_def
        K_FLOAT_WIDGET_FACTOR_def)

lemma spinBox_edit_5_2:
  "Float_spinBoxUpdated (PFloat (5 / 2)) (radiusWidget\<lparr>spinBox := PFloat (5 / 2)\<rparr>, scene)
     = (Return (),
        radiusWidget\<lparr>u_value := PFloat (5 / 2), spinBox := PFloat (5 / 2), slider := PFloat 250\<rparr>,
        scene\<lparr>valueChangedEmits := 1\<rparr>)"
  by (simp add: Float_spinBoxUpdated_def FloatSimple_spinBoxUpdated_def widgetUpdated_def
        FloatSimple_widgetUpdated_def connect_defs action_defs update_defs example_defs
        py_mul_float_def K_FLOAT_WIDGET_FACTOR_def)

section \<open>The value setter\<close>

text \<open>
  Claim C10. In the boolean widget the refresh checks the box with the handler attached.
  Assigning \<^verbatim>\<open>True\<close> to the fresh, unconnected boolean widget changes the box, the
  handler emits the signal, and the refresh emits it again: two emissions for one
  assignment.
\<close>

theorem bool_setter_emits_twice:
  "set_value (PBool True) (visibleWidget, scene)
     = (Return (), visibleWidget\<lparr>u_value := PBool True, checkBox := True\<rparr>,
        scene\<lparr>valueChangedEmits := 2\<rparr>)"
  by (simp add: connect_defs action_defs update_defs example_defs)

text \<open>
  In every other class an assignment on an unconnected widget that returns emits the
  signal once, whether or not the value changes.
\<close>

lemma setter_emits_once:
  assumes "\<not> isConnected b" and "cls b \<noteq> BoolAttributeWidget"
    and "set_value v (b, w) = (Return (), b', w')"
  shows "valueChangedEmits w' = valueChangedEmits w + 1"
  using assms unfolding set_value_unconnected[OF assms(1)]
  by (cases "cls b")
     (auto simp: update_defs action_defs py_div_float_def py_mul_float_def
        split: option.splits if_splits)

section \<open>Snapshot and restore\<close>

text \<open>
  Claim C7, as the code has it. Pushing the bundle stolen from a binding into an
  unconnected binding of the same class reproduces the value (in the boolean widget as
  its truth value when the check box changes) unless the value is the sentinel string,
  and reproduces the enumeration labels up to \<^verbatim>\<open>==\<close>. The receiving binding's override
  bundle becomes the whole stolen bundle: it is never empty, and its
  \<^verbatim>\<open>overridePlug\<close> entry is the source's. A non-empty bundle with neither a
  \<^verbatim>\<open>value\<close> nor an \<^verbatim>\<open>enumValues\<close> key changes nothing but the override bundle.
\<close>

theorem steal_push_round_trip:
  "(cls b2 = cls b1 \<and> \<not> isConnected b2 \<and> get_value b1 \<noteq> PStr GARBAGE_TEST
      \<and> (cls b1 = EnumAttributeWidget \<longrightarrow> (\<exists>xs. get_enumValues b1 = PList xs))
      \<and> stealMyData b1 = Return d \<and> pushInData d (b2, w) = (r, b2', w')
    \<longrightarrow> (get_value b2' = get_value b1 \<or>
           (cls b1 = BoolAttributeWidget \<and> get_value b2' = PBool (py_truthy (get_value b1))))
        \<and> (cls b1 = EnumAttributeWidget \<longrightarrow>
             get_enumValues b2' = get_enumValues b1 \<or> py_eq (get_enumValues b1) (get_enumValues b2'))
        \<and> sceneAttributeData b2' = d \<and> d \<noteq> []
        \<and> dict_get (sceneAttributeData b2') K_OVR_PLUG_OVERRIDE_DATA_KEYS PNone
             = dict_get (sceneAttributeData b1) K_OVR_PLUG_OVERRIDE_DATA_KEYS PNone)
   \<and> (data \<noteq> [] \<and> map_of data ''value'' = None \<and> map_of data ''enumValues'' = None
    \<longrightarrow> pushInData data (b, w0) = (Return (), b\<lparr>sceneAttributeData := data\<rparr>, w0))"
  using steal_push_values[of b2 b1 d w r b2' w'] push_absent_keys[of data b w0]
  unfolding get_value_def get_enumValues_def by blast

theorem steal_push_round_trip_witness:
  "stealMyData countRedirected = Return countBundle
   \<and> get_value countSeven = PInt 7
   \<and> get_value (fst (snd (pushInData countBundle (countSeven, scene)))) = PInt 0
   \<and> dict_get (sceneAttributeData (fst (snd (pushInData countBundle (countSeven, scene)))))
        K_OVR_PLUG_OVERRIDE_DATA_KEYS PNone = PStr ''ball.radius''
   \<and> pushInData [(''note'', PStr ''x'')] (countSeven, scene)
       = (Return (), countSeven\<lparr>sceneAttributeData := [(''note'', PStr ''x'')]\<rparr>, scene)"
proof -
  have s: "stealMyData countRedirected = Return countBundle"
    by (simp add: stealMyData_eq example_defs)
  obtain r b2' w' where p: "pushInData countBundle (countSeven, scene) = (r, b2', w')"
    by (cases "pushInData countBundle (countSeven, scene)") auto
  have h: "cls countSeven = cls countRedirected \<and> \<not> isConnected countSeven
      \<and> get_value countRedirected \<noteq> PStr GARBAGE_TEST
      \<and> (cls countRedirected = EnumAttributeWidget \<longrightarrow> (\<exists>xs. get_enumValues countRedirected = PList xs))"
    by (simp add: get_value_def example_defs)
  have k: "[(''note'', PStr ''x'')] \<noteq> [] \<and> map_of [(''note'', PStr ''x'')] ''value'' = None
      \<and> map_of [(''note'', PStr ''x'')] ''enumValues'' = None"
    by simp
  have c: "cls countRedirected \<noteq> BoolAttributeWidget \<and> get_value countRedirected = PInt 0
      \<and> dict_get (sceneAttributeData countRedirected) K_OVR_PLUG_OVERRIDE_DATA_KEYS PNone = PStr ''ball.radius''
      \<and> get_value countSeven = PInt 7"
    by (simp add: get_value_def dict_get_def K_OVR_PLUG_OVERRIDE_DATA_KEYS_def example_defs)
  have e: "dict_get countBundle K_OVR_PLUG_OVERRIDE_DATA_KEYS PNone = PStr ''ball.radius''"
    by (simp add: dict_get_def K_OVR_PLUG_OVERRIDE_DATA_KEYS_def example_defs)
  show ?thesis
    using steal_push_round_trip[where ?b1.0 = countRedirected and ?b2.0 = countSeven and d = countBundle
        and w = scene and r = r and b2' = b2' and w' = w' and data = "[(''note'', PStr ''x'')]"
        and b = countSeven and ?w0.0 = scene] s p h k c e
    by simp
qed

text \<open>
  The claim as stated fails on the fresh text widget, which has no override bundle and
  reads and writes its own plug. After its stolen bundle is pushed into a fresh text
  widget, that widget has a non-empty override bundle without \<^verbatim>\<open>overridePlug\<close>: it has
  no plug to read or write, and \<^verbatim>\<open>connectToNode\<close> leaves it unconnected.
\<close>

theorem steal_push_changes_override_state:
  "stealMyData labelWidget = Return labelBundle
   \<and> pushInData labelBundle (labelWidget, scene)
       = (Return (), labelWidget\<lparr>sceneAttributeData := labelBundle\<rparr>, scene\<lparr>valueChangedEmits := 1\<rparr>)
   \<and> sceneAttributeData labelWidget = []
   \<and> sceneAttributeData (labelWidget\<lparr>sceneAttributeData := labelBundle\<rparr>) \<noteq> []
   \<and> effectivePlug labelWidget = Some (PStr ''ball.label'')
   \<and> effectivePlug (labelWidget\<lparr>sceneAttributeData := labelBundle\<rparr>) = None
   \<and> connectToNode False (labelWidget\<lparr>sceneAttributeData := labelBundle\<rparr>, scene)
       = (Return (), labelWidget\<lparr>sceneAttributeData := labelBundle\<rparr>, scene)"
  by (simp add: stealMyData_eq pushInData_def getAllProperties_eq setattr_def PUSH_SKIP_PROPERTIES_def
        GARBAGE_TEST_def dict_get_def K_OVR_PLUG_OVERRIDE_DATA_KEYS_def connect_defs action_defs
        update_defs example_defs)

end
